theory Spec2Isabelle
  imports Main
begin

section \<open>Data model of the run execution service\<close>

text \<open>
  The development embeds \<open>PerformRunExecutionV3Service\<close>: the rows it reads and writes, the
  response of the endpoint, and each private method as a function on the store. Opaque JSON
  values are strings, dates are milliseconds.
\<close>

type_synonym json = string
type_synonym date = nat

datatype JobRunStatus =
  QUEUED | STARTED | WAITING_TO_RESUME | SUCCESS | FAILURE | ABORTED | TIMED_OUT
  | UNRESOLVED_AUTH | INVALID_PAYLOAD | CANCELED

datatype TaskStatus =
  TASK_PENDING | TASK_WAITING | TASK_RUNNING | TASK_COMPLETED | TASK_ERRORED | TASK_CANCELED

datatype TaskAttemptStatus = ATTEMPT_PENDING | ATTEMPT_ERRORED

datatype RuntimeEnvironmentType = DEVELOPMENT | PRODUCTION | STAGING | PREVIEW

datatype JobRunSubscriptionEvent = ON_SUCCESS | ON_FAILURE

datatype RecipientMethod = ENDPOINT | WEBHOOK

datatype JobRunSubscriptionStatus = ACTIVE | INACTIVE

datatype Reason = PREPROCESS | EXECUTE_JOB

text \<open>The \<open>output\<close> column of a run: a \<open>{message}\<close> object built by the service, or a
  payload taken from the endpoint's response.\<close>

datatype Output = Message string | Payload json

datatype Error =
  RecordNotFound | ForeignKeyViolation | StoreUnavailable | JsonSyntaxError | RetryError Output

text \<open>Modelled from the spec: \<open>formatError\<close> lives in \<open>~/utils/formatErrors.server\<close>, which
  is not part of the sources; the formatted error is kept symbolic.\<close>

datatype FormattedError = FormatError json

record JobRun =
  run_status :: JobRunStatus
  startedAt :: "date option"
  run_completedAt :: "date option"
  executionCount :: int
  executionDuration :: int
  yieldedExecutions :: "string list"
  run_output :: "Output option"
  properties :: "json option"
  forceYieldImmediately :: bool
  endpointId :: string
  organizationId :: string
  environmentType :: RuntimeEnvironmentType
  maximumExecutionTimePerRunInMs :: int
  internal :: bool

record Task =
  task_id :: string
  task_runId :: string
  task_status :: TaskStatus
  noop :: bool
  task_completedAt :: "date option"
  task_output :: "json option"
  outputProperties :: "json option"
  createdAt :: date
  displayKey :: "string option"
  task_name :: string

record TaskAttempt =
  attempt_taskId :: string
  attempt_number :: nat
  attempt_status :: TaskAttemptStatus
  runAt :: "date option"
  attempt_error :: "FormattedError option"

record Endpoint =
  url :: string
  version :: string
  runChunkExecutionLimit :: int

record JobRunSubscription =
  sub_runId :: string
  recipient :: string
  recipientMethod :: RecipientMethod
  sub_event :: JobRunSubscriptionEvent
  sub_status :: JobRunSubscriptionStatus

record AutoYieldMetadata =
  location :: string
  timeRemaining :: int
  timeElapsed :: int
  limit :: "int option"

record AutoYieldExecution =
  ay_runId :: string
  ay_location :: string
  ay_timeRemaining :: int
  ay_timeElapsed :: int
  ay_limit :: int

text \<open>Jobs put on the worker queue. \<open>enqueueRunExecutionV3\<close>, \<open>workerQueue\<close> and
  \<open>ResumeTaskService\<close> are collaborators outside the sources; an enqueue is the append of the
  job it is asked for.\<close>

datatype Job =
  PerformRunExecution string Reason bool
  | DeliverRunSubscriptions string
  | ResumeTask string "date option"

text \<open>A call of \<open>CompleteRunTaskService\<close> (outside the sources, its own writes are not
  modelled): run id, task id, properties and parsed output.\<close>

datatype CompleteRunTaskCall = CompleteRunTask string string "json option" "json option"

text \<open>The store. Runs and endpoints are looked up by id only; tasks, attempts and
  subscriptions are tables that are searched, counted and appended to. An attempt's id is
  its position in the table. The queue is written through the transaction client, so it is
  part of what a transaction rolls back.\<close>

record Store =
  jobRuns :: "string \<rightharpoonup> JobRun"
  tasks :: "Task list"
  taskAttempts :: "TaskAttempt list"
  endpoints :: "string \<rightharpoonup> Endpoint"
  subscriptions :: "JobRunSubscription list"
  autoYieldExecutions :: "AutoYieldExecution list"
  queue :: "Job list"
  completeRunTaskCalls :: "CompleteRunTaskCall list"

text \<open>The constants of \<open>~/consts\<close>, which is not part of the sources, are parameters.\<close>

record Consts =
  MAX_RUN_CHUNK_EXECUTION_LIMIT :: int
  MAX_RUN_YIELDED_EXECUTIONS :: nat

subsection \<open>The endpoint's response\<close>

record ServerTask =
  st_id :: string
  st_outputProperties :: "json option"
  st_operation :: "string option"
  st_callbackUrl :: "string option"
  st_delayUntil :: "date option"

text \<open>The body of \<open>AUTO_YIELD_EXECUTION_WITH_COMPLETED_TASK\<close>. Its \<open>output\<close> is a string
  handed to \<open>JSON.parse\<close>: \<open>None\<close> is an absent or empty string, \<open>Some None\<close> a string that
  \<open>JSON.parse\<close> rejects, \<open>Some (Some v)\<close> one that parses to \<open>v\<close>.\<close>

record AutoYieldWithCompletedTask =
  ct_id :: string
  ct_properties :: "json option"
  ct_output :: "json option option"
  ct_data :: AutoYieldMetadata

datatype ChildError =
  ChildAutoYieldExecution AutoYieldMetadata
  | ChildAutoYieldExecutionWithCompletedTask AutoYieldWithCompletedTask
  | ChildCanceled
  | ChildError "string option" "json option"
  | ChildInvalidPayload json
  | ChildResumeWithTask ServerTask
  | ChildRetryWithTask ServerTask json date
  | ChildUnresolvedAuthError json
  | ChildYieldExecution string

datatype RunJobResponse =
  RunJobSuccess "json option"
  | RunJobResumeWithTask ServerTask
  | RunJobError "string option" "json option"
  | RunJobRetryWithTask ServerTask json date
  | RunJobCanceled
  | RunJobUnresolvedAuthError json
  | RunJobInvalidPayloadError json
  | RunJobYieldExecution string
  | RunJobAutoYieldExecution AutoYieldMetadata
  | RunJobAutoYieldWithCompletedTaskExecution AutoYieldWithCompletedTask
  | RunJobResumeWithParallelTask ServerTask "ChildError list"

text \<open>\<open>safeJsonZodParse\<close>: no value for a body that is not JSON, the generated message of
  the schema issues, or the data.\<close>

datatype 'a Parsed = InvalidJson | SchemaInvalid string | Valid 'a

record RunMetadata =
  successSubscription :: bool
  failedSubscription :: bool

record Headers =
  trigger_version :: "string option"
  x_trigger_run_metadata :: "RunMetadata option"

text \<open>An HTTP response. \<open>detectResponseIsTimeout\<close> is outside the sources; its verdict on
  the response is the field \<open>isTimeout\<close>. \<open>headers\<close> is \<open>None\<close> when the headers do not parse,
  \<open>errorBody\<close> is the body read with the error schema when that succeeds.\<close>

record 'a Response =
  http_status :: nat
  headers :: "Headers option"
  isTimeout :: bool
  errorBody :: "json option"
  body :: "'a Parsed"

definition ok :: "('a, 'b) Response_scheme \<Rightarrow> bool" where
  "ok r = (200 \<le> http_status r \<and> http_status r \<le> 299)"

record PreprocessResults =
  abort :: bool
  pp_properties :: "json option"

subsection \<open>What one delivery sees of the world\<close>

record PerformRunExecutionV3Input =
  input_id :: string
  reason :: Reason
  isRetry :: bool
  resumeTaskId :: "string option"

text \<open>The aggregate loaded by \<open>findRun\<close>: the run row with its joined columns, its endpoint,
  its subscriptions with recipient method \<open>ENDPOINT\<close>, and the number of its tasks. The
  completed tasks, the event and the connections only feed the request body, which is not
  modelled.\<close>

record FoundRun =
  fr_id :: string
  fr_run :: JobRun
  fr_endpoint :: Endpoint
  fr_subscriptions :: "JobRunSubscription list"
  fr_count_tasks :: nat

text \<open>What the outside world answers during one execution: the clock, the process
  environment, whether the store rejects the write that cancels a blocked organisation,
  whether the connections resolve, and the endpoint's reply to the preprocess request and to
  the execute request, the latter with its measured duration.\<close>

record ExecEnv =
  now :: date
  BLOCKED_ORGS :: "string option"
  cancelWriteThrows :: bool
  connectionsResolved :: bool
  preprocessReply :: "PreprocessResults Response option"
  reply :: "RunJobResponse Response option"
  durationInMs :: int

datatype EventType = start | finish

record ExecutionEvent =
  eventType :: EventType
  eventTime :: date
  drift :: int
  ev_runId :: string

datatype Request = PreprocessRunRequest string | ExecuteJobRequest string

text \<open>The store together with what leaves the process outside any transaction: telemetry
  and the requests sent to the endpoint. The registry of \<open>forceYieldCoordinator\<close>, which
  \<open>executeJob\<close> only registers the run with and deregisters it from, is left out.\<close>

record World =
  db :: Store
  telemetry :: "ExecutionEvent list"
  requests :: "Request list"

section \<open>Store primitives\<close>

definition andThen :: "Error + 'a \<Rightarrow> ('a \<Rightarrow> Error + 'b) \<Rightarrow> Error + 'b" where
  "andThen m f = (case m of Inl e \<Rightarrow> Inl e | Inr x \<Rightarrow> f x)"

text \<open>\<open>$transaction\<close>: a throw inside rolls every write back.\<close>

definition transaction :: "(Store \<Rightarrow> Error + Store) \<Rightarrow> Store \<Rightarrow> Error option \<times> Store" where
  "transaction f s = (case f s of Inl e \<Rightarrow> (Some e, s) | Inr s' \<Rightarrow> (None, s'))"

definition jobRun_update :: "string \<Rightarrow> (JobRun \<Rightarrow> JobRun) \<Rightarrow> Store \<Rightarrow> Error + Store" where
  "jobRun_update rid f s =
     (case jobRuns s rid of
        None \<Rightarrow> Inl RecordNotFound
      | Some r \<Rightarrow> Inr (s\<lparr>jobRuns := (jobRuns s)(rid \<mapsto> f r)\<rparr>))"

definition endpoint_update :: "string \<Rightarrow> (Endpoint \<Rightarrow> Endpoint) \<Rightarrow> Store \<Rightarrow> Error + Store" where
  "endpoint_update eid f s =
     (case endpoints s eid of
        None \<Rightarrow> Inl RecordNotFound
      | Some e \<Rightarrow> Inr (s\<lparr>endpoints := (endpoints s)(eid \<mapsto> f e)\<rparr>))"

definition task_findUnique :: "string \<Rightarrow> Store \<Rightarrow> Task option" where
  "task_findUnique tid s = find (\<lambda>t. task_id t = tid) (tasks s)"

definition task_update :: "string \<Rightarrow> (Task \<Rightarrow> Task) \<Rightarrow> Store \<Rightarrow> Error + Store" where
  "task_update tid f s =
     (case task_findUnique tid s of
        None \<Rightarrow> Inl RecordNotFound
      | Some _ \<Rightarrow> Inr (s\<lparr>tasks := map (\<lambda>t. if task_id t = tid then f t else t) (tasks s)\<rparr>))"

definition enqueue :: "Job \<Rightarrow> Store \<Rightarrow> Store" where
  "enqueue j s = s\<lparr>queue := queue s @ [j]\<rparr>"

definition enqueueRunExecutionV3 :: "FoundRun \<Rightarrow> Store \<Rightarrow> Store" where
  "enqueueRunExecutionV3 run s =
     enqueue (PerformRunExecution (fr_id run) EXECUTE_JOB
                (environmentType (fr_run run) = DEVELOPMENT)) s"

text \<open>JavaScript truthiness of an optional string.\<close>

definition truthy :: "string option \<Rightarrow> bool" where
  "truthy x = (case x of None \<Rightarrow> False | Some v \<Rightarrow> v \<noteq> [])"

text \<open>\<open>String.prototype.includes\<close>.\<close>

fun string_includes :: "string \<Rightarrow> string \<Rightarrow> bool" where
  "string_includes [] sub = (sub = [])"
| "string_includes (c # cs) sub = (take (length sub) (c # cs) = sub \<or> string_includes cs sub)"

text \<open>Numbers inside template strings: a natural number in decimal, and a count of
  milliseconds divided by 1000 (at most three decimals, trailing zeros dropped).\<close>

definition digit :: "nat \<Rightarrow> char" where
  "digit n = ''0123456789'' ! (n mod 10)"

fun decimal :: "nat \<Rightarrow> string" where
  "decimal n = (if n < 10 then [digit n] else decimal (n div 10) @ [digit n])"

fun dropTrailingZeros :: "string \<Rightarrow> string" where
  "dropTrailingZeros s = rev (dropWhile (\<lambda>c. c = CHR ''0'') (rev s))"

definition seconds :: "int \<Rightarrow> string" where
  "seconds ms =
     (let n = nat \<bar>ms\<bar>; whole = n div 1000; frac = n mod 1000;
          digits = [digit (frac div 100), digit (frac div 10), digit frac]
      in (if ms < 0 then ''-'' else '''') @ decimal whole
         @ (if frac = 0 then '''' else ''.'' @ dropTrailingZeros digits))"

section \<open>The outcome handlers\<close>

datatype FailStatus = FAIL_FAILURE | FAIL_ABORTED | FAIL_TIMED_OUT | FAIL_UNRESOLVED_AUTH
  | FAIL_INVALID_PAYLOAD

fun jobRunStatus :: "FailStatus \<Rightarrow> JobRunStatus" where
  "jobRunStatus FAIL_FAILURE = FAILURE"
| "jobRunStatus FAIL_ABORTED = ABORTED"
| "jobRunStatus FAIL_TIMED_OUT = TIMED_OUT"
| "jobRunStatus FAIL_UNRESOLVED_AUTH = UNRESOLVED_AUTH"
| "jobRunStatus FAIL_INVALID_PAYLOAD = INVALID_PAYLOAD"

text \<open>An \<open>undefined\<close> value in a Prisma \<open>data\<close> object leaves the column as it is.\<close>

definition orKeep :: "'a option \<Rightarrow> 'a option \<Rightarrow> 'a option" where
  "orKeep new old = (case new of None \<Rightarrow> old | Some v \<Rightarrow> Some v)"

definition cancelOrErrorTasks :: "string \<Rightarrow> FailStatus \<Rightarrow> date \<Rightarrow> Task list \<Rightarrow> Task list" where
  "cancelOrErrorTasks rid st t ts =
     map (\<lambda>x. if task_runId x = rid \<and> task_status x \<in> {TASK_WAITING, TASK_RUNNING, TASK_PENDING}
               then x\<lparr>task_status := (if st = FAIL_TIMED_OUT then TASK_CANCELED else TASK_ERRORED),
                      task_completedAt := Some t\<rparr>
               else x) ts"

definition failRunExecution ::
  "Reason \<Rightarrow> FoundRun \<Rightarrow> Output option \<Rightarrow> FailStatus \<Rightarrow> int \<Rightarrow> date \<Rightarrow> Store \<Rightarrow> Error + Store" where
  "failRunExecution rsn run out st d t s =
     (case rsn of
        EXECUTE_JOB \<Rightarrow>
          andThen
            (jobRun_update (fr_id run)
               (\<lambda>r. r\<lparr>run_completedAt := Some t, run_status := jobRunStatus st,
                      run_output := orKeep out (run_output r),
                      executionDuration := executionDuration r + d,
                      forceYieldImmediately := False\<rparr>) s)
            (\<lambda>s1. Inr (enqueue (DeliverRunSubscriptions (fr_id run))
                          (s1\<lparr>tasks := cancelOrErrorTasks (fr_id run) st t (tasks s1)\<rparr>)))
      | PREPROCESS \<Rightarrow>
          if st = FAIL_ABORTED then
            jobRun_update (fr_id run)
              (\<lambda>r. r\<lparr>run_completedAt := Some t, run_status := jobRunStatus st,
                     run_output := orKeep out (run_output r)\<rparr>) s
          else
            andThen
              (jobRun_update (fr_id run) (\<lambda>r. r\<lparr>run_status := STARTED, startedAt := Some t\<rparr>) s)
              (\<lambda>s1. Inr (enqueueRunExecutionV3 run s1)))"

definition completeRunWithSuccess ::
  "FoundRun \<Rightarrow> json option \<Rightarrow> int \<Rightarrow> date \<Rightarrow> Store \<Rightarrow> Error + Store" where
  "completeRunWithSuccess run out d t s =
     andThen
       (jobRun_update (fr_id run)
          (\<lambda>r. r\<lparr>run_completedAt := Some t, run_status := SUCCESS,
                 run_output := orKeep (map_option Payload out) (run_output r),
                 executionDuration := executionDuration r + d\<rparr>) s)
       (\<lambda>s1. Inr (enqueue (DeliverRunSubscriptions (fr_id run)) s1))"

definition resumeRunWithTask ::
  "FoundRun \<Rightarrow> ServerTask \<Rightarrow> int \<Rightarrow> int \<Rightarrow> Store \<Rightarrow> Error + Store" where
  "resumeRunWithTask run task d c s =
     andThen
       (jobRun_update (fr_id run)
          (\<lambda>r. r\<lparr>executionDuration := executionDuration r + d,
                 executionCount := executionCount r + c\<rparr>) s)
       (\<lambda>s1. andThen
          (if st_outputProperties task \<noteq> None
           then task_update (st_id task) (\<lambda>x. x\<lparr>outputProperties := st_outputProperties task\<rparr>) s1
           else Inr s1)
          (\<lambda>s2. if \<not> truthy (st_operation task) \<and> \<not> truthy (st_callbackUrl task)
                 then Inr (enqueue (ResumeTask (st_id task) (st_delayUntil task)) s2)
                 else Inr s2))"

definition resumeYieldedRun ::
  "Consts \<Rightarrow> FoundRun \<Rightarrow> string \<Rightarrow> int \<Rightarrow> int \<Rightarrow> date \<Rightarrow> Store \<Rightarrow> Error + Store" where
  "resumeYieldedRun k run key d c t s =
     (if length (yieldedExecutions (fr_run run)) + 1 > MAX_RUN_YIELDED_EXECUTIONS k then
        failRunExecution EXECUTE_JOB run
          (Some (Message (''Run has yielded too many times, the maximum is ''
                          @ decimal (MAX_RUN_YIELDED_EXECUTIONS k))))
          FAIL_FAILURE d t s
      else
        andThen
          (jobRun_update (fr_id run)
             (\<lambda>r. r\<lparr>executionDuration := executionDuration r + d,
                    executionCount := executionCount r + c,
                    yieldedExecutions := yieldedExecutions r @ [key],
                    forceYieldImmediately := False\<rparr>) s)
          (\<lambda>s1. Inr (enqueueRunExecutionV3 run s1)))"

definition createAutoYieldExecution :: "string \<Rightarrow> AutoYieldMetadata \<Rightarrow> Store \<Rightarrow> Store" where
  "createAutoYieldExecution rid data s =
     s\<lparr>autoYieldExecutions := autoYieldExecutions s @
         [\<lparr>ay_runId = rid, ay_location = location data, ay_timeRemaining = timeRemaining data,
           ay_timeElapsed = timeElapsed data,
           ay_limit = (case limit data of None \<Rightarrow> 0 | Some l \<Rightarrow> l)\<rparr>]\<rparr>"

definition resumeAutoYieldedRun ::
  "FoundRun \<Rightarrow> AutoYieldMetadata \<Rightarrow> int \<Rightarrow> int \<Rightarrow> Store \<Rightarrow> Error + Store" where
  "resumeAutoYieldedRun run data d c s =
     andThen
       (jobRun_update (fr_id run)
          (\<lambda>r. r\<lparr>executionDuration := executionDuration r + d,
                 executionCount := executionCount r + c,
                 forceYieldImmediately := False\<rparr>) s)
       (\<lambda>s1. Inr (enqueueRunExecutionV3 run (createAutoYieldExecution (fr_id run) data s1)))"

definition resumeAutoYieldedRunWithCompletedTask ::
  "FoundRun \<Rightarrow> AutoYieldWithCompletedTask \<Rightarrow> int \<Rightarrow> int \<Rightarrow> Store \<Rightarrow> Error + Store" where
  "resumeAutoYieldedRunWithCompletedTask run data d c s =
     andThen
       (jobRun_update (fr_id run)
          (\<lambda>r. r\<lparr>executionDuration := executionDuration r + d,
                 executionCount := executionCount r + c,
                 forceYieldImmediately := False\<rparr>) s)
       (\<lambda>s1. let s2 = createAutoYieldExecution (fr_id run) (ct_data data) s1 in
          (case ct_output data of
             Some None \<Rightarrow> Inl JsonSyntaxError
           | parsed \<Rightarrow>
               Inr (enqueueRunExecutionV3 run
                      (s2\<lparr>completeRunTaskCalls := completeRunTaskCalls s2 @
                            [CompleteRunTask (fr_id run) (ct_id data) (ct_properties data)
                               (case parsed of None \<Rightarrow> None | Some v \<Rightarrow> v)]\<rparr>))))"

text \<open>\<open>taskAttempt.findFirst\<close> with status \<open>PENDING\<close>, ordered by number descending: the
  position and row of the pending attempt of the task with the greatest number.\<close>

definition pendingAttempts :: "string \<Rightarrow> TaskAttempt list \<Rightarrow> (nat \<times> TaskAttempt) list" where
  "pendingAttempts tid as =
     filter (\<lambda>(i, a). attempt_taskId a = tid \<and> attempt_status a = ATTEMPT_PENDING)
       (enumerate 0 as)"

definition greatestNumber :: "(nat \<times> TaskAttempt) list \<Rightarrow> (nat \<times> TaskAttempt) option" where
  "greatestNumber xs =
     (case xs of
        [] \<Rightarrow> None
      | x # rest \<Rightarrow>
          Some (foldl (\<lambda>best y. if attempt_number (snd best) < attempt_number (snd y)
                                 then y else best) x rest))"

definition retryRunWithTask ::
  "FoundRun \<Rightarrow> ServerTask \<Rightarrow> json \<Rightarrow> date \<Rightarrow> int \<Rightarrow> int \<Rightarrow> Store \<Rightarrow> Error + Store" where
  "retryRunWithTask run task err retryAt d c s =
     (let existingAttempt = greatestNumber (pendingAttempts (st_id task) (taskAttempts s));
          s1 = (case existingAttempt of
                  None \<Rightarrow> s
                | Some (i, a) \<Rightarrow>
                    s\<lparr>taskAttempts := (taskAttempts s)
                        [i := a\<lparr>attempt_status := ATTEMPT_ERRORED,
                                attempt_error := Some (FormatError err)\<rparr>]\<rparr>)
      in case task_findUnique (st_id task) s1 of
           None \<Rightarrow> Inl ForeignKeyViolation
         | Some row \<Rightarrow>
             (let s2 = s1\<lparr>taskAttempts := taskAttempts s1 @
                          [\<lparr>attempt_taskId = st_id task,
                            attempt_number =
                              (case existingAttempt of None \<Rightarrow> 1
                               | Some (i, a) \<Rightarrow> attempt_number a + 1),
                            attempt_status = ATTEMPT_PENDING,
                            runAt = Some retryAt,
                            attempt_error = None\<rparr>]\<rparr>
              in andThen
                   (task_update (st_id task) (\<lambda>x. x\<lparr>task_status := TASK_WAITING\<rparr>) s2)
                   (\<lambda>s3. andThen
                      (jobRun_update (task_runId row)
                         (\<lambda>r. r\<lparr>executionDuration := executionDuration r + d,
                                executionCount := executionCount r + c\<rparr>) s3)
                      (\<lambda>s4. Inr (enqueue (ResumeTask (st_id task) (Some retryAt)) s4)))))"

definition failRunWithError ::
  "FoundRun \<Rightarrow> string option \<Rightarrow> json option \<Rightarrow> int \<Rightarrow> date \<Rightarrow> Store \<Rightarrow> Error + Store" where
  "failRunWithError run task err d t s =
     andThen
       (case task of
          None \<Rightarrow> Inr s
        | Some tid \<Rightarrow>
            task_update tid
              (\<lambda>x. x\<lparr>task_status := TASK_ERRORED, task_completedAt := Some t,
                     task_output := orKeep err (task_output x)\<rparr>) s)
       (failRunExecution EXECUTE_JOB run (map_option Payload err) FAIL_FAILURE d t)"

definition failRunWithUnresolvedAuthError ::
  "FoundRun \<Rightarrow> json \<Rightarrow> int \<Rightarrow> date \<Rightarrow> Store \<Rightarrow> Error + Store" where
  "failRunWithUnresolvedAuthError run issues d t s =
     failRunExecution EXECUTE_JOB run (Some (Payload issues)) FAIL_UNRESOLVED_AUTH d t s"

definition failRunWithInvalidPayloadError ::
  "FoundRun \<Rightarrow> json \<Rightarrow> int \<Rightarrow> date \<Rightarrow> Store \<Rightarrow> Error + Store" where
  "failRunWithInvalidPayloadError run errors d t s =
     failRunExecution EXECUTE_JOB run (Some (Payload errors)) FAIL_INVALID_PAYLOAD d t s"

text \<open>\<open>tasks\<close> ordered by \<open>createdAt\<close> descending, \<open>take 1\<close>.\<close>

definition latestTask :: "Task list \<Rightarrow> Task option" where
  "latestTask ts =
     (case ts of
        [] \<Rightarrow> None
      | x # rest \<Rightarrow> Some (foldl (\<lambda>best y. if createdAt best < createdAt y then y else best) x rest))"

definition timeoutCause :: "Task option \<Rightarrow> string" where
  "timeoutCause latest =
     (case latest of
        None \<Rightarrow> ''This is likely caused by executing code outside of a task that exceeded the function timeout''
      | Some x \<Rightarrow>
          if task_status x = TASK_RUNNING then
            ''This is likely caused by task '' @ [CHR 0x22]
            @ (case displayKey x of None \<Rightarrow> task_name x | Some dk \<Rightarrow> dk)
            @ [CHR 0x22] @ '' execution exceeding the function timeout''
          else ''This is likely caused by executing code outside of a task that exceeded the function timeout'')"

definition resumeRunExecutionAfterTimeout ::
  "Consts \<Rightarrow> FoundRun \<Rightarrow> int \<Rightarrow> date \<Rightarrow> Store \<Rightarrow> Error + Store" where
  "resumeRunExecutionAfterTimeout k run d t s =
     (if executionDuration (fr_run run) + d \<ge> maximumExecutionTimePerRunInMs (fr_run run) then
        failRunExecution EXECUTE_JOB run
          (Some (Message (''Execution timed out after ''
                          @ seconds (maximumExecutionTimePerRunInMs (fr_run run)) @ '' seconds'')))
          FAIL_TIMED_OUT d t s
      else
        (case jobRuns s (fr_id run) of
           None \<Rightarrow> Inl RecordNotFound
         | Some row \<Rightarrow>
             (let ts = filter (\<lambda>x. task_runId x = fr_id run) (tasks s) in
              if length ts = fr_count_tasks run then
                failRunExecution EXECUTE_JOB run
                  (Some (Message (''Function timeout detected in '' @ seconds d
                     @ ''s without any task creation. This is unexpected behavior and could lead to an infinite execution error because the run will never finish. ''
                     @ timeoutCause (latestTask ts))))
                  FAIL_TIMED_OUT d t s
              else
                andThen
                  (jobRun_update (fr_id run)
                     (\<lambda>r. r\<lparr>executionDuration := executionDuration r + d,
                            forceYieldImmediately := False\<rparr>) s)
                  (\<lambda>s1. andThen
                     (endpoint_update (endpointId row)
                        (\<lambda>e. e\<lparr>runChunkExecutionLimit :=
                                 min (max d 10000) (MAX_RUN_CHUNK_EXECUTION_LIMIT k)\<rparr>) s1)
                     (\<lambda>s2. Inr (enqueueRunExecutionV3 run s2))))))"

subsection \<open>Children of a parallel task\<close>

text \<open>One iteration of the \<open>for\<close> loop over \<open>childErrors\<close>: \<open>Return\<close> is a \<open>return\<close> out of the
  method, \<open>Continue\<close> a \<open>break\<close> out of the \<open>switch\<close>. Each handler runs in its own
  transaction; a throw ends the method.\<close>

datatype Flow = Continue | Return

definition dispatchChildError ::
  "Consts \<Rightarrow> FoundRun \<Rightarrow> int \<Rightarrow> date \<Rightarrow> ChildError \<Rightarrow> Store \<Rightarrow> Flow \<times> Error option \<times> Store" where
  "dispatchChildError k run d t c s =
     (case c of
        ChildAutoYieldExecution data \<Rightarrow>
          (Continue, transaction (resumeAutoYieldedRun run data 0 0) s)
      | ChildAutoYieldExecutionWithCompletedTask data \<Rightarrow>
          (Continue, transaction (resumeAutoYieldedRunWithCompletedTask run data 0 0) s)
      | ChildCanceled \<Rightarrow> (Continue, None, s)
      | ChildError task err \<Rightarrow>
          (Return, transaction
             (failRunExecution EXECUTE_JOB run (map_option Payload err) FAIL_FAILURE d t) s)
      | ChildInvalidPayload errors \<Rightarrow>
          (Return, transaction
             (failRunExecution EXECUTE_JOB run (Some (Payload errors)) FAIL_INVALID_PAYLOAD d t) s)
      | ChildResumeWithTask task \<Rightarrow>
          (Continue, transaction (resumeRunWithTask run task 0 0) s)
      | ChildRetryWithTask task err retryAt \<Rightarrow>
          (Continue, transaction (retryRunWithTask run task err retryAt 0 0) s)
      | ChildUnresolvedAuthError issues \<Rightarrow>
          (Return, transaction
             (failRunExecution EXECUTE_JOB run (Some (Payload issues)) FAIL_UNRESOLVED_AUTH d t) s)
      | ChildYieldExecution key \<Rightarrow>
          (Continue, transaction (resumeYieldedRun k run key 0 0 t) s))"

fun dispatchChildErrors ::
  "Consts \<Rightarrow> FoundRun \<Rightarrow> int \<Rightarrow> date \<Rightarrow> ChildError list \<Rightarrow> Store \<Rightarrow> Error option \<times> Store" where
  "dispatchChildErrors k run d t [] s = (None, s)"
| "dispatchChildErrors k run d t (c # cs) s =
     (case dispatchChildError k run d t c s of
        (Return, r) \<Rightarrow> r
      | (Continue, Some e, s') \<Rightarrow> (Some e, s')
      | (Continue, None, s') \<Rightarrow> dispatchChildErrors k run d t cs s')"

text \<open>The parent update and the update of the parent task are not inside a transaction:
  what they wrote stays when a later step throws.\<close>

definition resumeParallelRunWithTask ::
  "Consts \<Rightarrow> FoundRun \<Rightarrow> ServerTask \<Rightarrow> ChildError list \<Rightarrow> int \<Rightarrow> date \<Rightarrow> Store
     \<Rightarrow> Error option \<times> Store" where
  "resumeParallelRunWithTask k run task cs d t s =
     (case jobRun_update (fr_id run)
             (\<lambda>r. r\<lparr>executionDuration := executionDuration r + d,
                    executionCount := executionCount r + 1,
                    forceYieldImmediately := False\<rparr>) s of
        Inl e \<Rightarrow> (Some e, s)
      | Inr s1 \<Rightarrow>
          (case (if st_outputProperties task \<noteq> None
                 then task_update (st_id task)
                        (\<lambda>x. x\<lparr>outputProperties := st_outputProperties task\<rparr>) s1
                 else Inr s1) of
             Inl e \<Rightarrow> (Some e, s1)
           | Inr s2 \<Rightarrow> dispatchChildErrors k run d t cs s2))"

section \<open>The two steps of a run\<close>

definition inDb :: "(Store \<Rightarrow> Error option \<times> Store) \<Rightarrow> World \<Rightarrow> Error option \<times> World" where
  "inDb f w = (case f (db w) of (e, s') \<Rightarrow> (e, w\<lparr>db := s'\<rparr>))"

definition executePreprocessing :: "ExecEnv \<Rightarrow> FoundRun \<Rightarrow> World \<Rightarrow> Error option \<times> World" where
  "executePreprocessing env run w =
     (let w1 = w\<lparr>requests := requests w @ [PreprocessRunRequest (fr_id run)]\<rparr>;
          fail = (\<lambda>msg st. inDb (transaction
                    (failRunExecution PREPROCESS run (Some (Message msg)) st 0 (now env))) w1)
      in case preprocessReply env of
           None \<Rightarrow> fail ''Could not connect to the endpoint'' FAIL_FAILURE
         | Some response \<Rightarrow>
             if \<not> ok response then
               fail (''Endpoint responded with '' @ decimal (http_status response)
                     @ '' status code'') FAIL_FAILURE
             else
               (case body response of
                  InvalidJson \<Rightarrow> fail ''Endpoint responded with invalid JSON'' FAIL_FAILURE
                | SchemaInvalid msg \<Rightarrow> fail msg FAIL_FAILURE
                | Valid data \<Rightarrow>
                    if abort data then fail ''Endpoint aborted the run'' FAIL_ABORTED
                    else
                      inDb (transaction (\<lambda>s.
                        andThen
                          (jobRun_update (fr_id run)
                             (\<lambda>r. r\<lparr>run_status := STARTED, startedAt := Some (now env),
                                    properties := orKeep (pp_properties data) (properties r),
                                    forceYieldImmediately := False\<rparr>) s)
                          (\<lambda>s1. Inr (enqueueRunExecutionV3 run s1)))) w1))"

subsection \<open>Preflight and header side effects of \<open>executeJob\<close>\<close>

definition blockedOrg :: "ExecEnv \<Rightarrow> FoundRun \<Rightarrow> bool" where
  "blockedOrg env run =
     (case BLOCKED_ORGS env of
        None \<Rightarrow> False
      | Some orgs \<Rightarrow> string_includes orgs (organizationId (fr_run run)))"

definition cancelBlockedRun :: "ExecEnv \<Rightarrow> FoundRun \<Rightarrow> Store \<Rightarrow> Error + Store" where
  "cancelBlockedRun env run s =
     (if cancelWriteThrows env then Inl StoreUnavailable
      else jobRun_update (fr_id run)
             (\<lambda>r. r\<lparr>run_status := CANCELED, run_completedAt := Some (now env)\<rparr>) s)"

definition startExecution :: "ExecEnv \<Rightarrow> FoundRun \<Rightarrow> Store \<Rightarrow> Error + Store" where
  "startExecution env run s =
     jobRun_update (fr_id run)
       (\<lambda>r. r\<lparr>run_status := (if run_status (fr_run run) = QUEUED then STARTED
                              else run_status (fr_run run)),
              startedAt := Some (case startedAt (fr_run run) of None \<Rightarrow> now env | Some t0 \<Rightarrow> t0),
              executionCount := executionCount r + 1\<rparr>) s"

definition resumeDeprecatedTask :: "ExecEnv \<Rightarrow> string option \<Rightarrow> Store \<Rightarrow> Error + Store" where
  "resumeDeprecatedTask env resumeTask s =
     (case resumeTask of
        None \<Rightarrow> Inr s
      | Some tid \<Rightarrow>
          if tid = [] then Inr s
          else
            (case task_findUnique tid s of
               None \<Rightarrow> Inr s
             | Some resumedTask \<Rightarrow>
                 task_update tid
                   (\<lambda>x. x\<lparr>task_status := (if noop resumedTask then TASK_COMPLETED else TASK_RUNNING),
                          task_completedAt := (if noop resumedTask then Some (now env)
                                               else task_completedAt x)\<rparr>) s))"

definition updateEndpointVersion :: "FoundRun \<Rightarrow> Headers option \<Rightarrow> Store \<Rightarrow> Error + Store" where
  "updateEndpointVersion run hs s =
     (case hs of
        None \<Rightarrow> Inr s
      | Some h \<Rightarrow>
          if truthy (trigger_version h) \<and> trigger_version h \<noteq> Some (version (fr_endpoint run))
          then endpoint_update (endpointId (fr_run run))
                 (\<lambda>e. e\<lparr>version := (case trigger_version h of None \<Rightarrow> version e | Some v \<Rightarrow> v)\<rparr>) s
          else Inr s)"

text \<open>\<open>jobRunSubscription.upsert\<close> on the unique key (run, recipient, event) with an empty
  \<open>update\<close>: an existing row is left alone.\<close>

definition subscription_upsert ::
  "string \<Rightarrow> string \<Rightarrow> JobRunSubscriptionEvent \<Rightarrow> Store \<Rightarrow> Store" where
  "subscription_upsert rid rcp ev s =
     (if list_ex (\<lambda>x. sub_runId x = rid \<and> recipient x = rcp \<and> sub_event x = ev) (subscriptions s)
      then s
      else s\<lparr>subscriptions := subscriptions s @
               [\<lparr>sub_runId = rid, recipient = rcp, recipientMethod = ENDPOINT,
                 sub_event = ev, sub_status = ACTIVE\<rparr>]\<rparr>)"

definition upsertRunSubscriptions :: "FoundRun \<Rightarrow> Headers option \<Rightarrow> Store \<Rightarrow> Store" where
  "upsertRunSubscriptions run hs s =
     (case hs of
        None \<Rightarrow> s
      | Some h \<Rightarrow>
          (case x_trigger_run_metadata h of
             None \<Rightarrow> s
           | Some m \<Rightarrow>
               if internal (fr_run run) then s
               else
                 (let s1 = (if successSubscription m
                               \<and> \<not> list_ex (\<lambda>x. sub_event x = ON_SUCCESS) (fr_subscriptions run)
                            then subscription_upsert (fr_id run) (endpointId (fr_run run)) ON_SUCCESS s
                            else s)
                  in if failedSubscription m
                        \<and> \<not> list_ex (\<lambda>x. sub_event x = ON_FAILURE) (fr_subscriptions run)
                     then subscription_upsert (fr_id run) (endpointId (fr_run run)) ON_FAILURE s1
                     else s1)))"

subsection \<open>Classification of the response\<close>

definition statusCodeMessage :: "nat \<Rightarrow> Output" where
  "statusCodeMessage code =
     Message (''Endpoint responded with '' @ decimal code @ '' status code'')"

definition dispatchResponse ::
  "Consts \<Rightarrow> FoundRun \<Rightarrow> RunJobResponse \<Rightarrow> int \<Rightarrow> date \<Rightarrow> Store \<Rightarrow> Error option \<times> Store" where
  "dispatchResponse k run data d t s =
     (case data of
        RunJobSuccess out \<Rightarrow> transaction (completeRunWithSuccess run out d t) s
      | RunJobResumeWithTask task \<Rightarrow> transaction (resumeRunWithTask run task d 1) s
      | RunJobError task err \<Rightarrow> transaction (failRunWithError run task err d t) s
      | RunJobRetryWithTask task err retryAt \<Rightarrow>
          transaction (retryRunWithTask run task err retryAt d 1) s
      | RunJobCanceled \<Rightarrow> (None, s)
      | RunJobUnresolvedAuthError issues \<Rightarrow>
          transaction (failRunWithUnresolvedAuthError run issues d t) s
      | RunJobInvalidPayloadError errors \<Rightarrow>
          transaction (failRunWithInvalidPayloadError run errors d t) s
      | RunJobYieldExecution key \<Rightarrow> transaction (resumeYieldedRun k run key d 1 t) s
      | RunJobAutoYieldExecution meta \<Rightarrow> transaction (resumeAutoYieldedRun run meta d 1) s
      | RunJobAutoYieldWithCompletedTaskExecution ct \<Rightarrow>
          transaction (resumeAutoYieldedRunWithCompletedTask run ct d 1) s
      | RunJobResumeWithParallelTask task cs \<Rightarrow> resumeParallelRunWithTask k run task cs d t s)"

definition handleResponse ::
  "Consts \<Rightarrow> ExecEnv \<Rightarrow> FoundRun \<Rightarrow> RunJobResponse Response \<Rightarrow> Store \<Rightarrow> Error option \<times> Store" where
  "handleResponse k env run response s =
     (let d = durationInMs env; t = now env; code = http_status response in
      if \<not> ok response then
        (case errorBody response of
           Some data \<Rightarrow>
             if 400 \<le> code \<and> code \<le> 499
             then transaction
                    (failRunExecution EXECUTE_JOB run (Some (Payload data)) FAIL_FAILURE 0 t) s
             else (Some (RetryError (Payload data)), s)
         | None \<Rightarrow>
             if 400 \<le> code \<and> code \<le> 499 \<and> code \<noteq> 408
             then transaction
                    (failRunExecution EXECUTE_JOB run (Some (statusCodeMessage code))
                       FAIL_FAILURE d t) s
             else if isTimeout response
             then transaction (resumeRunExecutionAfterTimeout k run d t) s
             else (Some (RetryError (statusCodeMessage code)), s))
      else
        (case body response of
           InvalidJson \<Rightarrow>
             transaction
               (failRunExecution EXECUTE_JOB run
                  (Some (Message ''Endpoint responded with invalid JSON'')) FAIL_FAILURE d t) s
         | SchemaInvalid msg \<Rightarrow>
             transaction
               (failRunExecution EXECUTE_JOB run (Some (Message msg)) FAIL_FAILURE d t) s
         | Valid data \<Rightarrow> dispatchResponse k run data d t s))"

subsection \<open>\<open>executeJob\<close>, \<open>findRun\<close> and \<open>call\<close>\<close>

text \<open>The request and the two telemetry events around it.\<close>

definition executeJobRequest :: "ExecEnv \<Rightarrow> FoundRun \<Rightarrow> int \<Rightarrow> World \<Rightarrow> World" where
  "executeJobRequest env run driftInMs w =
     w\<lparr>telemetry := telemetry w @
          [\<lparr>eventType = start, eventTime = now env, drift = driftInMs, ev_runId = fr_id run\<rparr>,
           \<lparr>eventType = finish, eventTime = now env, drift = 0, ev_runId = fr_id run\<rparr>],
       requests := requests w @ [ExecuteJobRequest (fr_id run)]\<rparr>"

definition afterPreflight ::
  "Consts \<Rightarrow> ExecEnv \<Rightarrow> FoundRun \<Rightarrow> PerformRunExecutionV3Input \<Rightarrow> int \<Rightarrow> World
     \<Rightarrow> Error option \<times> World" where
  "afterPreflight k env run input driftInMs w =
     (case startExecution env run (db w) of
        Inl e \<Rightarrow> (Some e, w)
      | Inr s1 \<Rightarrow>
          if \<not> connectionsResolved env then
            inDb (transaction
                    (failRunExecution EXECUTE_JOB run
                       (Some (Message (''Could not resolve all connections for run '' @ fr_id run
                                       @ ''. This should not happen'')))
                       FAIL_FAILURE 0 (now env))) (w\<lparr>db := s1\<rparr>)
          else
            (case resumeDeprecatedTask env (resumeTaskId input) s1 of
               Inl e \<Rightarrow> (Some e, w\<lparr>db := s1\<rparr>)
             | Inr s2 \<Rightarrow>
                 (let w3 = executeJobRequest env run driftInMs (w\<lparr>db := s2\<rparr>) in
                  case reply env of
                    None \<Rightarrow>
                      (Some (RetryError (Message
                         (''Connection could not be established to the endpoint (''
                          @ url (fr_endpoint run) @ '')''))), w3)
                  | Some response \<Rightarrow>
                      (case updateEndpointVersion run (headers response) s2 of
                         Inl e \<Rightarrow> (Some e, w3)
                       | Inr s4 \<Rightarrow>
                           inDb (handleResponse k env run response)
                             (w3\<lparr>db := upsertRunSubscriptions run (headers response) s4\<rparr>)))))"

definition executeJob ::
  "Consts \<Rightarrow> ExecEnv \<Rightarrow> FoundRun \<Rightarrow> PerformRunExecutionV3Input \<Rightarrow> int \<Rightarrow> World
     \<Rightarrow> Error option \<times> World" where
  "executeJob k env run input driftInMs w =
     (if run_status (fr_run run) = CANCELED then (None, w)
      else if blockedOrg env run then
        (case cancelBlockedRun env run (db w) of
           Inr s' \<Rightarrow> (None, w\<lparr>db := s'\<rparr>)
         | Inl e \<Rightarrow> afterPreflight k env run input driftInMs w)
      else afterPreflight k env run input driftInMs w)"

text \<open>\<open>findRun\<close>. The endpoint of a run is a required relation; a store that lacks the row
  loads nothing.\<close>

definition findRun :: "Store \<Rightarrow> string \<Rightarrow> FoundRun option" where
  "findRun s rid =
     (case jobRuns s rid of
        None \<Rightarrow> None
      | Some r \<Rightarrow>
          (case endpoints s (endpointId r) of
             None \<Rightarrow> None
           | Some e \<Rightarrow>
               Some \<lparr>fr_id = rid, fr_run = r, fr_endpoint = e,
                     fr_subscriptions =
                       filter (\<lambda>x. sub_runId x = rid \<and> recipientMethod x = ENDPOINT) (subscriptions s),
                     fr_count_tasks = length (filter (\<lambda>x. task_runId x = rid) (tasks s))\<rparr>))"

definition call ::
  "Consts \<Rightarrow> ExecEnv \<Rightarrow> PerformRunExecutionV3Input \<Rightarrow> int \<Rightarrow> World \<Rightarrow> Error option \<times> World" where
  "call k env input driftInMs w =
     (case findRun (db w) (input_id input) of
        None \<Rightarrow> (None, w)
      | Some run \<Rightarrow>
          (case reason input of
             PREPROCESS \<Rightarrow> executePreprocessing env run w
           | EXECUTE_JOB \<Rightarrow> executeJob k env run input driftInMs w))"

section \<open>Vocabulary of the properties\<close>

text \<open>\<open>ensures m Q\<close>: if the computation \<open>m\<close> returns normally, its result satisfies \<open>Q\<close>.\<close>

definition ensures :: "Error + 'a \<Rightarrow> ('a \<Rightarrow> bool) \<Rightarrow> bool" where
  "ensures m Q = (case m of Inl e \<Rightarrow> True | Inr x \<Rightarrow> Q x)"

text \<open>\<open>runsUpdated rid f s s'\<close>: the table of runs of \<open>s'\<close> is that of \<open>s\<close> with \<open>f\<close> applied to
  the row \<open>rid\<close>, which exists.\<close>

definition runsUpdated :: "string \<Rightarrow> (JobRun \<Rightarrow> JobRun) \<Rightarrow> Store \<Rightarrow> Store \<Rightarrow> bool" where
  "runsUpdated rid f s s' =
     (\<exists>r. jobRuns s rid = Some r \<and> jobRuns s' = (jobRuns s)(rid \<mapsto> f r))"

text \<open>What \<open>failRunExecution\<close> writes into the row of the run.\<close>

definition failedRow ::
  "Reason \<Rightarrow> Output option \<Rightarrow> FailStatus \<Rightarrow> int \<Rightarrow> date \<Rightarrow> JobRun \<Rightarrow> JobRun" where
  "failedRow rsn out st d t r =
     (case rsn of
        EXECUTE_JOB \<Rightarrow>
          r\<lparr>run_completedAt := Some t, run_status := jobRunStatus st,
            run_output := orKeep out (run_output r),
            executionDuration := executionDuration r + d,
            forceYieldImmediately := False\<rparr>
      | PREPROCESS \<Rightarrow>
          if st = FAIL_ABORTED
          then r\<lparr>run_completedAt := Some t, run_status := jobRunStatus st,
                 run_output := orKeep out (run_output r)\<rparr>
          else r\<lparr>run_status := STARTED, startedAt := Some t\<rparr>)"

text \<open>A row may move from \<open>r\<close> to \<open>r'\<close>: the execution count does not decrease and a cleared
  force-yield flag stays cleared. \<open>steps s s'\<close>: every run of \<open>s\<close> is still in \<open>s'\<close> and has
  moved in that way.\<close>

definition rowStep :: "JobRun \<Rightarrow> JobRun \<Rightarrow> bool" where
  "rowStep r r' = (executionCount r \<le> executionCount r'
                   \<and> (\<not> forceYieldImmediately r \<longrightarrow> \<not> forceYieldImmediately r'))"

definition steps :: "Store \<Rightarrow> Store \<Rightarrow> bool" where
  "steps s s' = (\<forall>rid r. jobRuns s rid = Some r \<longrightarrow>
                   (\<exists>r'. jobRuns s' rid = Some r' \<and> rowStep r r'))"

text \<open>The subscription rows of one event, and whether the run metadata header asks for a
  subscription to it.\<close>

definition rowsFor :: "JobRunSubscriptionEvent \<Rightarrow> Store \<Rightarrow> JobRunSubscription list" where
  "rowsFor ev s = filter (\<lambda>x. sub_event x = ev) (subscriptions s)"

definition requested :: "RunMetadata \<Rightarrow> JobRunSubscriptionEvent \<Rightarrow> bool" where
  "requested m ev =
     (case ev of ON_SUCCESS \<Rightarrow> successSubscription m | ON_FAILURE \<Rightarrow> failedSubscription m)"

text \<open>The preprocess outcomes that fail the step (no response, a status outside 200..299,
  a body that is not JSON or does not fit the schema, or \<open>abort = true\<close>), and the last of
  them on its own.\<close>

definition preprocessAborts :: "ExecEnv \<Rightarrow> bool" where
  "preprocessAborts env =
     (case preprocessReply env of
        None \<Rightarrow> False
      | Some response \<Rightarrow>
          ok response \<and> (case body response of Valid data \<Rightarrow> abort data | _ \<Rightarrow> False))"

definition preprocessFails :: "ExecEnv \<Rightarrow> bool" where
  "preprocessFails env =
     (case preprocessReply env of
        None \<Rightarrow> True
      | Some response \<Rightarrow>
          \<not> ok response \<or> (case body response of Valid data \<Rightarrow> abort data | _ \<Rightarrow> True))"

text \<open>The force-yield flag of the run is stored as \<open>false\<close>.\<close>

definition flagCleared :: "FoundRun \<Rightarrow> Store \<Rightarrow> bool" where
  "flagCleared run s = (map_option forceYieldImmediately (jobRuns s (fr_id run)) = Some False)"

text \<open>The children of a parallel task that fail the run, and the two counters of a run that
  account for executions.\<close>

fun terminalChild :: "ChildError \<Rightarrow> bool" where
  "terminalChild (ChildError task err) = True"
| "terminalChild (ChildInvalidPayload errors) = True"
| "terminalChild (ChildUnresolvedAuthError issues) = True"
| "terminalChild c = False"

definition counts :: "Store \<Rightarrow> string \<Rightarrow> int option" where
  "counts s rid = map_option executionCount (jobRuns s rid)"

definition durations :: "Store \<Rightarrow> string \<Rightarrow> int option" where
  "durations s rid = map_option executionDuration (jobRuns s rid)"

text \<open>The attempts of a task in the order of their creation. They are well numbered when
  their numbers are 1, 2, ... in that order and the last of them, if any, is \<open>PENDING\<close>.\<close>

definition attemptsOf :: "string \<Rightarrow> Store \<Rightarrow> TaskAttempt list" where
  "attemptsOf tid s = filter (\<lambda>a. attempt_taskId a = tid) (taskAttempts s)"

definition wellNumbered :: "string \<Rightarrow> Store \<Rightarrow> bool" where
  "wellNumbered tid s =
     (map attempt_number (attemptsOf tid s) = [1..<Suc (length (attemptsOf tid s))]
      \<and> (attemptsOf tid s \<noteq> [] \<longrightarrow> attempt_status (last (attemptsOf tid s)) = ATTEMPT_PENDING))"

text \<open>A pending attempt of a task, and the position of one with the greatest number among
  them: what \<open>findFirst\<close> with \<open>status: PENDING\<close> and \<open>orderBy number desc\<close> returns.\<close>

definition isPending :: "string \<Rightarrow> TaskAttempt \<Rightarrow> bool" where
  "isPending tid a = (attempt_taskId a = tid \<and> attempt_status a = ATTEMPT_PENDING)"

definition isLatestPending :: "string \<Rightarrow> TaskAttempt list \<Rightarrow> nat \<Rightarrow> bool" where
  "isLatestPending tid as i =
     (i < length as \<and> isPending tid (as ! i)
      \<and> (\<forall>a\<in>set as. isPending tid a \<longrightarrow> attempt_number a \<le> attempt_number (as ! i)))"

text \<open>The attempt created by a retry, an attempt marked as errored, and the table of
  attempts after a retry.\<close>

definition newAttempt :: "string \<Rightarrow> nat \<Rightarrow> date \<Rightarrow> TaskAttempt" where
  "newAttempt tid n retryAt =
     \<lparr>attempt_taskId = tid, attempt_number = n, attempt_status = ATTEMPT_PENDING,
      runAt = Some retryAt, attempt_error = None\<rparr>"

definition errored :: "json \<Rightarrow> TaskAttempt \<Rightarrow> TaskAttempt" where
  "errored err a = a\<lparr>attempt_status := ATTEMPT_ERRORED, attempt_error := Some (FormatError err)\<rparr>"

definition retriedAttempts :: "string \<Rightarrow> json \<Rightarrow> date \<Rightarrow> TaskAttempt list \<Rightarrow> TaskAttempt list" where
  "retriedAttempts tid err retryAt as =
     (case greatestNumber (pendingAttempts tid as) of
        None \<Rightarrow> as @ [newAttempt tid 1 retryAt]
      | Some (i, a) \<Rightarrow> as[i := errored err a] @ [newAttempt tid (attempt_number a + 1) retryAt])"




section \<open>Example data\<close>

text \<open>A production run \<open>r1\<close> of organisation \<open>org1\<close> on endpoint \<open>e1\<close>, queued and fresh,
  used by the scenarios below.\<close>

definition exConsts :: Consts where
  "exConsts = \<lparr>MAX_RUN_CHUNK_EXECUTION_LIMIT = 120000, MAX_RUN_YIELDED_EXECUTIONS = 3\<rparr>"

definition exRun :: JobRun where
  "exRun = \<lparr>run_status = QUEUED, startedAt = None, run_completedAt = None, executionCount = 0,
     executionDuration = 0, yieldedExecutions = [], run_output = None, properties = None,
     forceYieldImmediately = False, endpointId = ''e1'', organizationId = ''org1'',
     environmentType = PRODUCTION, maximumExecutionTimePerRunInMs = 60000, internal = False\<rparr>"

definition exEndpoint :: Endpoint where
  "exEndpoint = \<lparr>url = ''https://example.test/api/trigger'', version = ''2.0.0'',
     runChunkExecutionLimit = 60000\<rparr>"

definition exTask :: Task where
  "exTask = \<lparr>task_id = ''t1'', task_runId = ''r1'', task_status = TASK_RUNNING, noop = False,
     task_completedAt = None, task_output = None, outputProperties = None, createdAt = 10,
     displayKey = None, task_name = ''fetch''\<rparr>"

definition exStore :: Store where
  "exStore = \<lparr>jobRuns = [''r1'' \<mapsto> exRun], tasks = [], taskAttempts = [],
     endpoints = [''e1'' \<mapsto> exEndpoint], subscriptions = [], autoYieldExecutions = [],
     queue = [], completeRunTaskCalls = []\<rparr>"

definition exFoundRun :: FoundRun where
  "exFoundRun = \<lparr>fr_id = ''r1'', fr_run = exRun, fr_endpoint = exEndpoint,
     fr_subscriptions = [], fr_count_tasks = 0\<rparr>"

definition exWorld :: World where
  "exWorld = \<lparr>db = exStore, telemetry = [], requests = []\<rparr>"

definition okResponse :: "RunJobResponse \<Rightarrow> RunJobResponse Response" where
  "okResponse data =
     \<lparr>http_status = 200,
      headers = Some \<lparr>trigger_version = None, x_trigger_run_metadata = None\<rparr>,
      isTimeout = False, errorBody = None, body = Valid data\<rparr>"

definition exEnv :: "RunJobResponse \<Rightarrow> int \<Rightarrow> ExecEnv" where
  "exEnv data d =
     \<lparr>now = 1000, BLOCKED_ORGS = None, cancelWriteThrows = False, connectionsResolved = True,
      preprocessReply = None, reply = Some (okResponse data), durationInMs = d\<rparr>"

definition exInput :: PerformRunExecutionV3Input where
  "exInput = \<lparr>input_id = ''r1'', reason = EXECUTE_JOB, isRetry = False, resumeTaskId = None\<rparr>"

definition exServerTask :: ServerTask where
  "exServerTask = \<lparr>st_id = ''t1'', st_outputProperties = None, st_operation = None,
     st_callbackUrl = None, st_delayUntil = None\<rparr>"

text \<open>Run \<open>r1\<close> after it has completed with \<open>SUCCESS\<close>, and a further delivery of
  \<open>EXECUTE_JOB\<close> for it.\<close>

definition terminalWorld :: World where
  "terminalWorld = exWorld\<lparr>db := exStore\<lparr>jobRuns := [''r1'' \<mapsto>
      exRun\<lparr>run_status := SUCCESS, startedAt := Some 100, run_completedAt := Some 500,
             executionCount := 1\<rparr>]\<rparr>\<rparr>"

definition redelivered :: "Error option \<times> World" where
  "redelivered = call exConsts (exEnv (RunJobSuccess None) 150) exInput 0 terminalWorld"

text \<open>An organisation on the block list, with a store that rejects the cancelling write
  and with one that accepts it.\<close>

definition blockedEnv :: "bool \<Rightarrow> ExecEnv" where
  "blockedEnv throws =
     (exEnv (RunJobSuccess None) 150)\<lparr>BLOCKED_ORGS := Some ''org0,org1'',
                                       cancelWriteThrows := throws\<rparr>"

text \<open>The run already has a \<open>SUCCESS\<close> subscription of another recipient; the endpoint asks
  for both subscriptions.\<close>

definition otherSubscription :: JobRunSubscription where
  "otherSubscription = \<lparr>sub_runId = ''r1'', recipient = ''e2'', recipientMethod = ENDPOINT,
     sub_event = ON_SUCCESS, sub_status = ACTIVE\<rparr>"

definition bothHeaders :: Headers where
  "bothHeaders = \<lparr>trigger_version = None,
     x_trigger_run_metadata = Some \<lparr>successSubscription = True, failedSubscription = True\<rparr>\<rparr>"

definition canceledRun :: JobRun where
  "canceledRun = exRun\<lparr>run_status := CANCELED, run_completedAt := Some 1000\<rparr>"

definition canceledStore :: Store where
  "canceledStore = exStore\<lparr>jobRuns := (jobRuns exStore)(''r1'' \<mapsto> canceledRun)\<rparr>"

text \<open>Preprocessing of \<open>r1\<close> with no response and with a response that aborts.\<close>

definition exPreprocessInput :: PerformRunExecutionV3Input where
  "exPreprocessInput = \<lparr>input_id = ''r1'', reason = PREPROCESS, isRetry = False, resumeTaskId = None\<rparr>"

definition abortReply :: "PreprocessResults Response" where
  "abortReply = \<lparr>http_status = 200, headers = None, isTimeout = False, errorBody = None,
     body = Valid \<lparr>abort = True, pp_properties = None\<rparr>\<rparr>"

definition preprocessEnv :: "PreprocessResults Response option \<Rightarrow> ExecEnv" where
  "preprocessEnv r = (exEnv RunJobCanceled 0)\<lparr>preprocessReply := r\<rparr>"

text \<open>Run \<open>r1\<close> with the force-yield flag set and task \<open>t1\<close>; an endpoint that answers
  \<open>RESUME_WITH_TASK\<close>.\<close>

definition forcedStore :: Store where
  "forcedStore = exStore\<lparr>jobRuns := [''r1'' \<mapsto> exRun\<lparr>forceYieldImmediately := True\<rparr>],
                         tasks := [exTask]\<rparr>"

definition forcedWorld :: World where
  "forcedWorld = exWorld\<lparr>db := forcedStore\<rparr>"

definition resumedWithTask :: "Error option \<times> World" where
  "resumedWithTask = call exConsts (exEnv (RunJobResumeWithTask exServerTask) 100) exInput 0 forcedWorld"

definition exAutoYield :: AutoYieldMetadata where
  "exAutoYield = \<lparr>location = ''start'', timeRemaining = 500, timeElapsed = 59500, limit = None\<rparr>"

definition exCompletedTask :: AutoYieldWithCompletedTask where
  "exCompletedTask = \<lparr>ct_id = ''t1'', ct_properties = None, ct_output = None, ct_data = exAutoYield\<rparr>"

text \<open>Run \<open>r1\<close> one key below the ceiling of three yielded executions; the endpoint
  answers \<open>RESUME_WITH_PARALLEL_TASK\<close> with two children that both yield.\<close>

definition nearCeilingWorld :: World where
  "nearCeilingWorld = exWorld\<lparr>db := exStore\<lparr>jobRuns := [''r1'' \<mapsto>
      exRun\<lparr>run_status := STARTED, startedAt := Some 100, executionCount := 4,
             yieldedExecutions := [''k1'', ''k2'']\<rparr>]\<rparr>\<rparr>"

definition twoYields :: "Error option \<times> World" where
  "twoYields = call exConsts
     (exEnv (RunJobResumeWithParallelTask exServerTask
               [ChildYieldExecution ''k3'', ChildYieldExecution ''k4'']) 100)
     exInput 0 (nearCeilingWorld\<lparr>db := (db nearCeilingWorld)\<lparr>tasks := [exTask]\<rparr>\<rparr>)"

text \<open>Run \<open>r1\<close> with task \<open>t1\<close> and a duration of 0; a chunk of 100 ms answered with
  \<open>RESUME_WITH_PARALLEL_TASK\<close> for the children given, and one answered with \<open>ERROR\<close>.\<close>

definition parallelWorld :: World where
  "parallelWorld = exWorld\<lparr>db := exStore\<lparr>tasks := [exTask]\<rparr>\<rparr>"

definition parallelDelivery :: "ChildError list \<Rightarrow> Error option \<times> World" where
  "parallelDelivery cs =
     call exConsts (exEnv (RunJobResumeWithParallelTask exServerTask cs) 100) exInput 0
       parallelWorld"

definition errorDelivery :: "Error option \<times> World" where
  "errorDelivery =
     call exConsts (exEnv (RunJobError None (Some ''boom'')) 100) exInput 0 parallelWorld"

text \<open>Scenario S5: task \<open>t1\<close> with a first attempt that errored and a second one pending.\<close>

definition firstAttempt :: TaskAttempt where
  "firstAttempt = \<lparr>attempt_taskId = ''t1'', attempt_number = 1, attempt_status = ATTEMPT_ERRORED,
     runAt = Some 1000, attempt_error = Some (FormatError ''timeout'')\<rparr>"

definition secondAttempt :: TaskAttempt where
  "secondAttempt = \<lparr>attempt_taskId = ''t1'', attempt_number = 2, attempt_status = ATTEMPT_PENDING,
     runAt = Some 2000, attempt_error = None\<rparr>"

definition retryStore :: "TaskAttempt list \<Rightarrow> Store" where
  "retryStore as = exStore\<lparr>tasks := [exTask], taskAttempts := as\<rparr>"



section \<open>Basic facts about the store primitives\<close>

lemma andThen_simps [simp]:
  "andThen (Inl e) f = Inl e" "andThen (Inr x) f = f x"
  by (simp_all add: andThen_def)

lemma andThen_Inr_iff: "andThen m f = Inr y \<longleftrightarrow> (\<exists>x. m = Inr x \<and> f x = Inr y)"
  by (cases m) simp_all

lemma jobRun_update_Inr_iff:
  "jobRun_update rid f s = Inr s' \<longleftrightarrow>
     (\<exists>r. jobRuns s rid = Some r \<and> s' = s\<lparr>jobRuns := (jobRuns s)(rid \<mapsto> f r)\<rparr>)"
  by (auto simp: jobRun_update_def split: option.splits)

lemma jobRun_update_Some:
  "jobRuns s rid = Some r \<Longrightarrow>
   jobRun_update rid f s = Inr (s\<lparr>jobRuns := (jobRuns s)(rid \<mapsto> f r)\<rparr>)"
  by (simp add: jobRun_update_def)

lemma endpoint_update_Some:
  "endpoints s eid = Some e \<Longrightarrow>
   endpoint_update eid f s = Inr (s\<lparr>endpoints := (endpoints s)(eid \<mapsto> f e)\<rparr>)"
  by (simp add: endpoint_update_def)

lemmas exec_defs = call_def findRun_def executeJob_def afterPreflight_def blockedOrg_def
  cancelBlockedRun_def startExecution_def jobRun_update_def endpoint_update_def task_update_def
  task_findUnique_def resumeDeprecatedTask_def executeJobRequest_def updateEndpointVersion_def
  truthy_def upsertRunSubscriptions_def subscription_upsert_def inDb_def handleResponse_def ok_def
  dispatchResponse_def transaction_def enqueueRunExecutionV3_def enqueue_def orKeep_def
  executePreprocessing_def

lemmas handler_defs = failRunExecution_def completeRunWithSuccess_def resumeRunWithTask_def
  resumeYieldedRun_def resumeAutoYieldedRun_def resumeAutoYieldedRunWithCompletedTask_def
  retryRunWithTask_def failRunWithError_def failRunWithUnresolvedAuthError_def
  failRunWithInvalidPayloadError_def resumeRunExecutionAfterTimeout_def
  resumeParallelRunWithTask_def createAutoYieldExecution_def cancelOrErrorTasks_def
  pendingAttempts_def greatestNumber_def

lemmas ex_defs = exConsts_def exRun_def exEndpoint_def exTask_def exStore_def exFoundRun_def
  exWorld_def okResponse_def exEnv_def exInput_def exServerTask_def

lemma ensures_simps [simp]:
  "ensures (Inl e) Q = True" "ensures (Inr x) Q = Q x"
  by (simp_all add: ensures_def)

lemma ensuresD: "ensures m Q \<Longrightarrow> m = Inr x \<Longrightarrow> Q x"
  by (simp add: ensures_def)

lemma ensures_andThen: "ensures (andThen m f) Q = ensures m (\<lambda>x. ensures (f x) Q)"
  by (cases m) simp_all

lemma ensures_if: "ensures (if b then m else n) Q = (if b then ensures m Q else ensures n Q)"
  by simp

lemma ensures_option:
  "ensures (case x of None \<Rightarrow> m | Some v \<Rightarrow> f v) Q
     = (case x of None \<Rightarrow> ensures m Q | Some v \<Rightarrow> ensures (f v) Q)"
  by (cases x) simp_all

lemma ensures_jobRun_update:
  "ensures (jobRun_update rid f s) Q
     = (\<forall>r. jobRuns s rid = Some r \<longrightarrow> Q (s\<lparr>jobRuns := (jobRuns s)(rid \<mapsto> f r)\<rparr>))"
  by (simp add: jobRun_update_def split: option.splits)

lemma ensures_task_update:
  "ensures (task_update tid f s) Q
     = (task_findUnique tid s \<noteq> None \<longrightarrow>
          Q (s\<lparr>tasks := map (\<lambda>t. if task_id t = tid then f t else t) (tasks s)\<rparr>))"
  by (simp add: task_update_def split: option.splits)

lemma ensures_endpoint_update:
  "ensures (endpoint_update eid f s) Q
     = (\<forall>e. endpoints s eid = Some e \<longrightarrow> Q (s\<lparr>endpoints := (endpoints s)(eid \<mapsto> f e)\<rparr>))"
  by (simp add: endpoint_update_def split: option.splits)

lemmas ensures_rules = ensures_andThen ensures_if ensures_option ensures_jobRun_update
  ensures_task_update ensures_endpoint_update

lemma steps_refl [simp]: "steps s s"
  by (simp add: steps_def rowStep_def)

lemma steps_trans: "steps s s' \<Longrightarrow> steps s' s'' \<Longrightarrow> steps s s''"
  unfolding steps_def rowStep_def by (meson order_trans)

lemma steps_same_runs: "jobRuns s' = jobRuns s \<Longrightarrow> steps s s'"
  by (simp add: steps_def rowStep_def)

lemma steps_upd:
  "jobRuns s rid = Some r \<Longrightarrow> jobRuns s' = (jobRuns s)(rid \<mapsto> r') \<Longrightarrow> rowStep r r' \<Longrightarrow> steps s s'"
  by (auto simp: steps_def rowStep_def)

lemma enqueue_runs [simp]: "jobRuns (enqueue j s) = jobRuns s"
  "jobRuns (enqueueRunExecutionV3 run s) = jobRuns s"
  "jobRuns (createAutoYieldExecution rid data s) = jobRuns s"
  by (simp_all add: enqueue_def enqueueRunExecutionV3_def createAutoYieldExecution_def)


subsection \<open>The effect of each handler on the table of runs\<close>

lemma failRunExecution_runs:
  "ensures (failRunExecution rsn run out st d t s)
     (runsUpdated (fr_id run) (failedRow rsn out st d t) s)"
  by (cases rsn) (simp_all add: failRunExecution_def ensures_rules runsUpdated_def failedRow_def)


lemma resumeRunWithTask_runs:
  "ensures (resumeRunWithTask run task d c s)
     (runsUpdated (fr_id run)
        (\<lambda>r. r\<lparr>executionDuration := executionDuration r + d,
          executionCount := executionCount r + c\<rparr>) s)"
  by (simp add: resumeRunWithTask_def ensures_rules runsUpdated_def)

lemma resumeYieldedRun_runs:
  "ensures (resumeYieldedRun k run key d c t s)
     (runsUpdated (fr_id run)
        (if length (yieldedExecutions (fr_run run)) + 1 > MAX_RUN_YIELDED_EXECUTIONS k
         then failedRow EXECUTE_JOB
                (Some (Message (''Run has yielded too many times, the maximum is ''
                          @ decimal (MAX_RUN_YIELDED_EXECUTIONS k)))) FAIL_FAILURE d t
         else (\<lambda>r. r\<lparr>executionDuration := executionDuration r + d,
                executionCount := executionCount r + c,
                yieldedExecutions := yieldedExecutions r @ [key],
                forceYieldImmediately := False\<rparr>)) s)"
  using failRunExecution_runs
  by (simp add: resumeYieldedRun_def ensures_rules runsUpdated_def)

lemma resumeAutoYieldedRun_runs:
  "ensures (resumeAutoYieldedRun run data d c s)
     (runsUpdated (fr_id run)
        (\<lambda>r. r\<lparr>executionDuration := executionDuration r + d,
          executionCount := executionCount r + c,
          forceYieldImmediately := False\<rparr>) s)"
  by (simp add: resumeAutoYieldedRun_def ensures_rules runsUpdated_def)

lemma resumeAutoYieldedRunWithCompletedTask_runs:
  "ensures (resumeAutoYieldedRunWithCompletedTask run data d c s)
     (runsUpdated (fr_id run)
        (\<lambda>r. r\<lparr>executionDuration := executionDuration r + d,
          executionCount := executionCount r + c,
          forceYieldImmediately := False\<rparr>) s)"
  by (simp add: resumeAutoYieldedRunWithCompletedTask_def ensures_rules runsUpdated_def Let_def
        enqueueRunExecutionV3_def enqueue_def createAutoYieldExecution_def
        split: option.splits)


lemma ensures_mono: "ensures m P \<Longrightarrow> (\<And>x. P x \<Longrightarrow> Q x) \<Longrightarrow> ensures m Q"
  by (cases m) simp_all

lemma retryRunWithTask_runs:
  "ensures (retryRunWithTask run task err retryAt d c s)
     (\<lambda>s'. \<exists>row. task_findUnique (st_id task) s = Some row \<and>
        runsUpdated (task_runId row)
          (\<lambda>r. r\<lparr>executionDuration := executionDuration r + d,
                 executionCount := executionCount r + c\<rparr>) s s')"
  by (simp add: retryRunWithTask_def ensures_rules runsUpdated_def Let_def task_findUnique_def
        split: option.splits prod.splits)


lemma resumeRunExecutionAfterTimeout_runs:
  "ensures (resumeRunExecutionAfterTimeout k run d t s)
     (\<lambda>s'. \<exists>f. runsUpdated (fr_id run) f s s' \<and>
        (\<forall>r. executionCount (f r) = executionCount r \<and> \<not> forceYieldImmediately (f r)))"
proof -
  have fail: "ensures (failRunExecution EXECUTE_JOB run out FAIL_TIMED_OUT d t s)
     (\<lambda>s'. \<exists>f. runsUpdated (fr_id run) f s s' \<and>
        (\<forall>r. executionCount (f r) = executionCount r \<and> \<not> forceYieldImmediately (f r)))" for out
    by (rule ensures_mono [OF failRunExecution_runs])
       (rule exI [of _ "failedRow EXECUTE_JOB out FAIL_TIMED_OUT d t"], simp add: failedRow_def)
  have ok: "\<exists>f. runsUpdated (fr_id run) f s s' \<and>
        (\<forall>r. executionCount (f r) = executionCount r \<and> \<not> forceYieldImmediately (f r))"
    if "jobRuns s (fr_id run) = Some r"
       "jobRuns s' = (jobRuns s)(fr_id run \<mapsto> r\<lparr>executionDuration := executionDuration r + d,
                            forceYieldImmediately := False\<rparr>)" for r s'
    using that
    by (intro exI [of _ "\<lambda>r. r\<lparr>executionDuration := executionDuration r + d,
                            forceYieldImmediately := False\<rparr>"]) (simp add: runsUpdated_def)
  show ?thesis
    unfolding resumeRunExecutionAfterTimeout_def Let_def
    by (simp add: ensures_rules fail ok split: option.splits)
qed


subsection \<open>Every step keeps the runs and moves their rows forward\<close>

lemma steps_runsUpdated:
  "runsUpdated rid f s s' \<Longrightarrow> (\<And>r. rowStep r (f r)) \<Longrightarrow> steps s s'"
  by (auto simp: runsUpdated_def steps_def) (simp add: rowStep_def)

lemma rowStep_failedRow [simp]: "rowStep r (failedRow rsn out st d t r)"
  by (cases rsn) (simp_all add: rowStep_def failedRow_def)

lemma steps_failRunExecution: "ensures (failRunExecution rsn run out st d t s) (steps s)"
  by (rule ensures_mono [OF failRunExecution_runs]) (erule steps_runsUpdated, simp)


lemma steps_resumeRunWithTask: "0 \<le> c \<Longrightarrow> ensures (resumeRunWithTask run task d c s) (steps s)"
  by (rule ensures_mono [OF resumeRunWithTask_runs])
     (erule steps_runsUpdated, simp add: rowStep_def)

lemma steps_resumeYieldedRun: "0 \<le> c \<Longrightarrow> ensures (resumeYieldedRun k run key d c t s) (steps s)"
  by (rule ensures_mono [OF resumeYieldedRun_runs])
     (erule steps_runsUpdated, simp add: rowStep_def failedRow_def)

lemma steps_resumeAutoYieldedRun:
  "0 \<le> c \<Longrightarrow> ensures (resumeAutoYieldedRun run data d c s) (steps s)"
  by (rule ensures_mono [OF resumeAutoYieldedRun_runs])
     (erule steps_runsUpdated, simp add: rowStep_def)

lemma steps_resumeAutoYieldedRunWithCompletedTask:
  "0 \<le> c \<Longrightarrow> ensures (resumeAutoYieldedRunWithCompletedTask run data d c s) (steps s)"
  by (rule ensures_mono [OF resumeAutoYieldedRunWithCompletedTask_runs])
     (erule steps_runsUpdated, simp add: rowStep_def)

lemma steps_retryRunWithTask:
  "0 \<le> c \<Longrightarrow> ensures (retryRunWithTask run task err retryAt d c s) (steps s)"
  by (rule ensures_mono [OF retryRunWithTask_runs])
     (auto elim!: steps_runsUpdated simp: rowStep_def)



lemma steps_transaction: "ensures (f s) (steps s) \<Longrightarrow> steps s (snd (transaction f s))"
  by (cases "f s") (simp_all add: transaction_def)

lemma snd_dispatchChildError_steps: "steps s (snd (snd (dispatchChildError k run d t c s)))"
  by (cases c)
     (simp_all add: dispatchChildError_def steps_transaction steps_failRunExecution
        steps_resumeRunWithTask steps_resumeYieldedRun steps_resumeAutoYieldedRun
        steps_resumeAutoYieldedRunWithCompletedTask steps_retryRunWithTask)

lemma steps_dispatchChildErrors: "steps s (snd (dispatchChildErrors k run d t cs s))"
proof (induction cs arbitrary: s)
  case Nil
  show ?case by simp
next
  case (Cons c cs)
  obtain fl e s1 where c: "dispatchChildError k run d t c s = (fl, e, s1)"
    by (cases "dispatchChildError k run d t c s") auto
  then have 1: "steps s s1" using snd_dispatchChildError_steps [of s k run d t c] by simp
  show ?case
  proof (cases fl)
    case Continue
    show ?thesis
    proof (cases e)
      case None
      with c Continue have "dispatchChildErrors k run d t (c # cs) s = dispatchChildErrors k run d t cs s1"
        by simp
      with 1 Cons.IH [of s1] show ?thesis by (simp add: steps_trans)
    next
      case (Some a)
      with c Continue 1 show ?thesis by simp
    qed
  next
    case Return
    with c 1 show ?thesis by simp
  qed
qed


lemma rowStep_refl [simp]: "rowStep r r"
  by (simp add: rowStep_def)


lemma steps_task_update: "ensures (task_update tid f s) (steps s)"
  by (simp add: ensures_rules steps_same_runs)





lemma inDb_outside [simp]:
  "requests (snd (inDb f w)) = requests w" "telemetry (snd (inDb f w)) = telemetry w"
  "db (snd (inDb f w)) = snd (f (db w))" "fst (inDb f w) = fst (f (db w))"
  by (simp_all add: inDb_def split: prod.splits)



lemma upsertRunSubscriptions_runs [simp]:
  "jobRuns (upsertRunSubscriptions run hs s) = jobRuns s"
  by (simp add: upsertRunSubscriptions_def subscription_upsert_def Let_def split: option.splits)

lemma executeJobRequest_db [simp]: "db (executeJobRequest env run driftInMs w) = db w"
  by (simp add: executeJobRequest_def)






section \<open>Adaptive chunk limit after a timeout\<close>

text \<open>
  Claim C4. When \<open>resumeRunExecutionAfterTimeout\<close> treats the timeout as forward progress
  (the cumulative duration stays below the organisation's maximum and the number of tasks of
  the run differs from the number loaded at the start of the chunk), the transaction commits
  and the run's endpoint has \<open>runChunkExecutionLimit = min (max durationInMs 10000)
  MAX_RUN_CHUNK_EXECUTION_LIMIT\<close>. With the constant at least 10000 the new limit lies between
  10000 and the constant, and a duration of 9000 gives 10000.
\<close>

theorem timeout_resume_chunk_limit:
  assumes "10000 \<le> MAX_RUN_CHUNK_EXECUTION_LIMIT k"
    and "executionDuration (fr_run run) + d < maximumExecutionTimePerRunInMs (fr_run run)"
    and "jobRuns s (fr_id run) = Some row"
    and "endpoints s (endpointId row) = Some e"
    and "length (filter (\<lambda>x. task_runId x = fr_id run) (tasks s)) \<noteq> fr_count_tasks run"
  shows "\<exists>s' l. resumeRunExecutionAfterTimeout k run d t s = Inr s'
           \<and> map_option runChunkExecutionLimit (endpoints s' (endpointId row)) = Some l
           \<and> l = min (max d 10000) (MAX_RUN_CHUNK_EXECUTION_LIMIT k)
           \<and> 10000 \<le> l \<and> l \<le> MAX_RUN_CHUNK_EXECUTION_LIMIT k
           \<and> (d = 9000 \<longrightarrow> l = 10000)"
  using assms
  by (simp add: resumeRunExecutionAfterTimeout_def Let_def jobRun_update_Some endpoint_update_Some
        enqueueRunExecutionV3_def enqueue_def)

text \<open>Scenario S4: a timeout after 9000 ms during which task \<open>t1\<close> was created.\<close>

theorem timeout_resume_chunk_limit_witness:
  "10000 \<le> MAX_RUN_CHUNK_EXECUTION_LIMIT exConsts
   \<and> executionDuration (fr_run exFoundRun) + 9000 < maximumExecutionTimePerRunInMs (fr_run exFoundRun)
   \<and> jobRuns (exStore\<lparr>tasks := [exTask]\<rparr>) (fr_id exFoundRun) = Some exRun
   \<and> endpoints (exStore\<lparr>tasks := [exTask]\<rparr>) (endpointId exRun) = Some exEndpoint
   \<and> length (filter (\<lambda>x. task_runId x = fr_id exFoundRun) (tasks (exStore\<lparr>tasks := [exTask]\<rparr>)))
       \<noteq> fr_count_tasks exFoundRun
   \<and> (\<exists>s'. resumeRunExecutionAfterTimeout exConsts exFoundRun 9000 1000 (exStore\<lparr>tasks := [exTask]\<rparr>)
              = Inr s'
           \<and> map_option runChunkExecutionLimit (endpoints s' ''e1'') = Some 10000)"
  using timeout_resume_chunk_limit [of exConsts exFoundRun 9000 "exStore\<lparr>tasks := [exTask]\<rparr>"
          exRun exEndpoint 1000]
  by (simp add: exConsts_def exFoundRun_def exStore_def exRun_def exTask_def)

section \<open>Deliveries for runs that are already terminal\<close>

text \<open>
  Claim C2, as stated, fails: a run whose \<open>completedAt\<close> is set but whose status is not
  \<open>CANCELED\<close> is executed again. For run \<open>r1\<close>, completed with \<open>SUCCESS\<close> at time 500 after one
  execution, a further \<open>EXECUTE_JOB\<close> delivery answered with \<open>SUCCESS\<close> raises \<open>executionCount\<close>
  from 1 to 2, overwrites \<open>completedAt\<close> with 1000 and enqueues \<open>deliverRunSubscriptions\<close>.
\<close>

theorem terminal_run_executed_again:
  "map_option run_completedAt (jobRuns (db terminalWorld) ''r1'') = Some (Some 500)
   \<and> map_option executionCount (jobRuns (db terminalWorld) ''r1'') = Some 1
   \<and> map_option executionCount (jobRuns (db (snd redelivered)) ''r1'') = Some 2
   \<and> map_option run_completedAt (jobRuns (db (snd redelivered)) ''r1'') = Some (Some 1000)
   \<and> queue (db terminalWorld) = []
   \<and> queue (db (snd redelivered)) = [DeliverRunSubscriptions ''r1'']"
  by (simp add: redelivered_def terminalWorld_def exec_defs handler_defs ex_defs)

text \<open>
  Claim C2, amended. The guard of \<open>executeJob\<close> is the status \<open>CANCELED\<close>: for every run
  whose stored status is \<open>CANCELED\<close>, a delivery of \<open>EXECUTE_JOB\<close> returns without an error and
  leaves the store, the telemetry and the requests as they were.
\<close>

theorem canceled_run_execute_noop:
  assumes "jobRuns (db w) (input_id input) = Some r" "run_status r = CANCELED"
    "reason input = EXECUTE_JOB"
  shows "call k env input driftInMs w = (None, w)"
  using assms by (auto simp add: call_def findRun_def executeJob_def split: option.splits)

theorem canceled_run_execute_noop_witness:
  "jobRuns (db (exWorld\<lparr>db := canceledStore\<rparr>)) (input_id exInput) = Some canceledRun
   \<and> run_status canceledRun = CANCELED
   \<and> reason exInput = EXECUTE_JOB
   \<and> call exConsts (exEnv (RunJobSuccess None) 150) exInput 0 (exWorld\<lparr>db := canceledStore\<rparr>)
       = (None, exWorld\<lparr>db := canceledStore\<rparr>)"
  using canceled_run_execute_noop [of "exWorld\<lparr>db := canceledStore\<rparr>" exInput canceledRun
          exConsts "exEnv (RunJobSuccess None) 150" 0]
  by (simp add: canceledStore_def canceledRun_def exInput_def exRun_def)

section \<open>Blocked organisations\<close>

lemma BLOCKED_ORGS_irrelevant:
  "startExecution (env\<lparr>BLOCKED_ORGS := x\<rparr>) = startExecution env"
  "resumeDeprecatedTask (env\<lparr>BLOCKED_ORGS := x\<rparr>) = resumeDeprecatedTask env"
  "executeJobRequest (env\<lparr>BLOCKED_ORGS := x\<rparr>) = executeJobRequest env"
  "handleResponse k (env\<lparr>BLOCKED_ORGS := x\<rparr>) = handleResponse k env"
  by (simp_all add: fun_eq_iff startExecution_def resumeDeprecatedTask_def
      executeJobRequest_def handleResponse_def cong: if_cong option.case_cong)

lemma afterPreflight_BLOCKED_ORGS:
  "afterPreflight k (env\<lparr>BLOCKED_ORGS := x\<rparr>) run input driftInMs w
     = afterPreflight k env run input driftInMs w"
  by (simp add: afterPreflight_def BLOCKED_ORGS_irrelevant
        cong: if_cong option.case_cong sum.case_cong)

lemma resumeDeprecatedTask_total: "\<exists>s'. resumeDeprecatedTask env x s = Inr s'"
  by (auto simp: resumeDeprecatedTask_def task_update_def split: option.splits)

lemma afterPreflight_requests:
  assumes "jobRuns (db w) (fr_id run) = Some r" "connectionsResolved env"
  shows "requests (snd (afterPreflight k env run input driftInMs w))
           = requests w @ [ExecuteJobRequest (fr_id run)]"
proof -
  obtain s2 where "resumeDeprecatedTask env (resumeTaskId input)
     ((db w)\<lparr>jobRuns := (jobRuns (db w))(fr_id run \<mapsto>
       r\<lparr>run_status := (if run_status (fr_run run) = QUEUED then STARTED
                          else run_status (fr_run run)),
         startedAt := Some (case startedAt (fr_run run) of None \<Rightarrow> now env | Some t0 \<Rightarrow> t0),
         executionCount := executionCount r + 1\<rparr>)\<rparr>) = Inr s2"
    using resumeDeprecatedTask_total by blast
  then show ?thesis using assms
    by (simp add: afterPreflight_def startExecution_def jobRun_update_def executeJobRequest_def
        Let_def split: option.splits sum.splits)
qed

text \<open>
  Claim C9. When the write that cancels the run of a blocked organisation throws, the
  exception is swallowed and \<open>executeJob\<close> behaves exactly as with no block list; if the run
  row exists and the connections resolve, the request to the endpoint is sent. When the run
  is not yet \<open>CANCELED\<close>, the organisation is on the list and the write succeeds,
  \<open>executeJob\<close> returns with nothing but that write: status \<open>CANCELED\<close> and \<open>completedAt\<close> set.
\<close>

theorem blocked_org_guard:
  "(cancelBlockedRun env run (db w) = Inl e \<longrightarrow>
      executeJob k env run input driftInMs w
        = executeJob k (env\<lparr>BLOCKED_ORGS := None\<rparr>) run input driftInMs w)
   \<and> (cancelBlockedRun env run (db w) = Inl e \<and> run_status (fr_run run) \<noteq> CANCELED
        \<and> jobRuns (db w) (fr_id run) = Some r \<and> connectionsResolved env \<longrightarrow>
      requests (snd (executeJob k env run input driftInMs w))
        = requests w @ [ExecuteJobRequest (fr_id run)])
   \<and> (blockedOrg env run \<and> run_status (fr_run run) \<noteq> CANCELED
        \<and> cancelBlockedRun env run (db w) = Inr s' \<longrightarrow>
      executeJob k env run input driftInMs w = (None, w\<lparr>db := s'\<rparr>)
      \<and> map_option run_status (jobRuns s' (fr_id run)) = Some CANCELED
      \<and> map_option run_completedAt (jobRuns s' (fr_id run)) = Some (Some (now env)))"
  by (auto simp: executeJob_def afterPreflight_BLOCKED_ORGS blockedOrg_def afterPreflight_requests
       cancelBlockedRun_def jobRun_update_Inr_iff split: if_splits)

text \<open>Organisation \<open>org1\<close> is on the list \<open>org0,org1\<close>: with a store that rejects the write
  the endpoint is called; with one that accepts it the run is cancelled.\<close>

theorem blocked_org_guard_witness:
  "cancelBlockedRun (blockedEnv True) exFoundRun (db exWorld) = Inl StoreUnavailable
   \<and> blockedOrg (blockedEnv True) exFoundRun
   \<and> run_status (fr_run exFoundRun) \<noteq> CANCELED
   \<and> jobRuns (db exWorld) (fr_id exFoundRun) = Some exRun
   \<and> connectionsResolved (blockedEnv True)
   \<and> executeJob exConsts (blockedEnv True) exFoundRun exInput 0 exWorld
       = executeJob exConsts ((blockedEnv True)\<lparr>BLOCKED_ORGS := None\<rparr>) exFoundRun exInput 0 exWorld
   \<and> requests (snd (executeJob exConsts (blockedEnv True) exFoundRun exInput 0 exWorld))
       = [ExecuteJobRequest ''r1'']
   \<and> cancelBlockedRun (blockedEnv False) exFoundRun (db exWorld) = Inr canceledStore
   \<and> blockedOrg (blockedEnv False) exFoundRun
   \<and> executeJob exConsts (blockedEnv False) exFoundRun exInput 0 exWorld
       = (None, exWorld\<lparr>db := canceledStore\<rparr>)
   \<and> map_option run_status (jobRuns canceledStore ''r1'') = Some CANCELED"
proof -
  have a: "cancelBlockedRun (blockedEnv True) exFoundRun (db exWorld) = Inl StoreUnavailable"
    by (simp add: blockedEnv_def cancelBlockedRun_def)
  have b: "blockedOrg (blockedEnv True) exFoundRun" "blockedOrg (blockedEnv False) exFoundRun"
    by (simp_all add: blockedEnv_def blockedOrg_def exFoundRun_def exRun_def)
  have c: "run_status (fr_run exFoundRun) \<noteq> CANCELED"
    "jobRuns (db exWorld) (fr_id exFoundRun) = Some exRun"
    "connectionsResolved (blockedEnv True)"
    by (simp_all add: exFoundRun_def exRun_def exWorld_def exStore_def blockedEnv_def exEnv_def)
  have d: "cancelBlockedRun (blockedEnv False) exFoundRun (db exWorld) = Inr canceledStore"
    by (simp add: blockedEnv_def cancelBlockedRun_def jobRun_update_def canceledStore_def
          canceledRun_def exFoundRun_def exWorld_def exStore_def exEnv_def)
  have e: "fr_id exFoundRun = ''r1''" "requests exWorld = []"
    by (simp_all add: exFoundRun_def exWorld_def)
  note t1 = blocked_org_guard [where env = "blockedEnv True" and run = exFoundRun and w = exWorld
          and e = StoreUnavailable and k = exConsts and input = exInput and driftInMs = 0
          and r = exRun and s' = canceledStore]
  note t2 = blocked_org_guard [where env = "blockedEnv False" and run = exFoundRun and w = exWorld
          and e = StoreUnavailable and k = exConsts and input = exInput and driftInMs = 0
          and r = exRun and s' = canceledStore]
  from t1 a have 1: "executeJob exConsts (blockedEnv True) exFoundRun exInput 0 exWorld
       = executeJob exConsts ((blockedEnv True)\<lparr>BLOCKED_ORGS := None\<rparr>) exFoundRun exInput 0 exWorld"
    by blast
  from t1 a c have "requests (snd (executeJob exConsts (blockedEnv True) exFoundRun exInput 0 exWorld))
       = requests exWorld @ [ExecuteJobRequest (fr_id exFoundRun)]"
    by blast
  then have 2: "requests (snd (executeJob exConsts (blockedEnv True) exFoundRun exInput 0 exWorld))
       = [ExecuteJobRequest ''r1'']"
    by (simp only: e append_Nil)
  from t2 b c d have 3: "executeJob exConsts (blockedEnv False) exFoundRun exInput 0 exWorld
       = (None, exWorld\<lparr>db := canceledStore\<rparr>)"
    by blast
  from t2 b c d have "map_option run_status (jobRuns canceledStore (fr_id exFoundRun)) = Some CANCELED"
    by blast
  then have 4: "map_option run_status (jobRuns canceledStore ''r1'') = Some CANCELED"
    by (simp only: e)
  from a b c d 1 2 3 4 show ?thesis by blast
qed

section \<open>Subscriptions asked for by response headers\<close>

text \<open>
  Claim C10. The upsert for an event is guarded by the subscriptions of the loaded
  aggregate: when the aggregate holds a subscription with that event, whatever its
  recipient, \<open>upsertRunSubscriptions\<close> leaves the rows of that event as they are, so no row is
  created for the endpoint. When the aggregate holds none, the headers ask for the event and
  the run is not internal, a row for the run, the endpoint and the event exists afterwards.
\<close>

theorem subscription_upsert_guard:
  "(list_ex (\<lambda>x. sub_event x = ev) (fr_subscriptions run) \<longrightarrow>
      rowsFor ev (upsertRunSubscriptions run hs s) = rowsFor ev s)
   \<and> (\<not> list_ex (\<lambda>x. sub_event x = ev) (fr_subscriptions run)
        \<and> hs = Some h \<and> x_trigger_run_metadata h = Some m \<and> requested m ev
        \<and> \<not> internal (fr_run run) \<longrightarrow>
      list_ex (\<lambda>x. sub_runId x = fr_id run \<and> recipient x = endpointId (fr_run run)
                    \<and> sub_event x = ev)
        (subscriptions (upsertRunSubscriptions run hs s)))"
  by (cases ev)
     (auto simp: upsertRunSubscriptions_def subscription_upsert_def rowsFor_def requested_def
        Let_def list_ex_iff split: option.splits)

text \<open>The run has a \<open>SUCCESS\<close> subscription of recipient \<open>e2\<close> and none for \<open>FAILURE\<close>; the
  endpoint \<open>e1\<close> asks for both. No \<open>SUCCESS\<close> row is created for \<open>e1\<close>; a \<open>FAILURE\<close> row is.\<close>

theorem subscription_upsert_guard_witness:
  "list_ex (\<lambda>x. sub_event x = ON_SUCCESS) (fr_subscriptions (exFoundRun\<lparr>fr_subscriptions := [otherSubscription]\<rparr>))
   \<and> rowsFor ON_SUCCESS
        (upsertRunSubscriptions (exFoundRun\<lparr>fr_subscriptions := [otherSubscription]\<rparr>)
           (Some bothHeaders) (exStore\<lparr>subscriptions := [otherSubscription]\<rparr>))
       = [otherSubscription]
   \<and> \<not> list_ex (\<lambda>x. sub_event x = ON_FAILURE) (fr_subscriptions (exFoundRun\<lparr>fr_subscriptions := [otherSubscription]\<rparr>))
   \<and> requested \<lparr>successSubscription = True, failedSubscription = True\<rparr> ON_FAILURE
   \<and> \<not> internal (fr_run exFoundRun)
   \<and> list_ex (\<lambda>x. sub_runId x = ''r1'' \<and> recipient x = ''e1'' \<and> sub_event x = ON_FAILURE)
        (subscriptions
           (upsertRunSubscriptions (exFoundRun\<lparr>fr_subscriptions := [otherSubscription]\<rparr>)
              (Some bothHeaders) (exStore\<lparr>subscriptions := [otherSubscription]\<rparr>)))"
  using subscription_upsert_guard [where ev = ON_SUCCESS
          and run = "exFoundRun\<lparr>fr_subscriptions := [otherSubscription]\<rparr>"
          and hs = "Some bothHeaders" and s = "exStore\<lparr>subscriptions := [otherSubscription]\<rparr>"
          and h = bothHeaders
          and m = "\<lparr>successSubscription = True, failedSubscription = True\<rparr>"]
        subscription_upsert_guard [where ev = ON_FAILURE
          and run = "exFoundRun\<lparr>fr_subscriptions := [otherSubscription]\<rparr>"
          and hs = "Some bothHeaders" and s = "exStore\<lparr>subscriptions := [otherSubscription]\<rparr>"
          and h = bothHeaders
          and m = "\<lparr>successSubscription = True, failedSubscription = True\<rparr>"]
  by (simp add: rowsFor_def requested_def otherSubscription_def bothHeaders_def exFoundRun_def
        exStore_def exRun_def)

section \<open>Failures of the preprocess step\<close>

text \<open>
  Claim C7, as stated, fails in its second half: when the endpoint does not answer the
  preprocess request, the failure path sets the run to \<open>STARTED\<close> and enqueues an
  \<open>EXECUTE_JOB\<close> execution of it.
\<close>

theorem preprocess_failure_enqueues:
  "queue (db exWorld) = [] \<and>
   queue (db (snd (call exConsts ((exEnv RunJobCanceled 0)\<lparr>preprocessReply := None\<rparr>) exPreprocessInput 0 exWorld)))
     = [PerformRunExecution ''r1'' EXECUTE_JOB False]"
  by (simp add: exPreprocessInput_def exec_defs handler_defs ex_defs)

lemma preprocess_fail_step:
  assumes "jobRuns (db w) (fr_id run) = Some r"
  shows "inDb (transaction (failRunExecution PREPROCESS run out st 0 t)) w =
    (None, w\<lparr>db := (if st = FAIL_ABORTED
       then (db w)\<lparr>jobRuns := (jobRuns (db w))(fr_id run \<mapsto>
               r\<lparr>run_completedAt := Some t, run_status := jobRunStatus st,
                 run_output := orKeep out (run_output r)\<rparr>)\<rparr>
       else enqueueRunExecutionV3 run ((db w)\<lparr>jobRuns := (jobRuns (db w))(fr_id run \<mapsto>
               r\<lparr>run_status := STARTED, startedAt := Some t\<rparr>)\<rparr>))\<rparr>)"
  using assms
  by (simp add: inDb_def transaction_def failRunExecution_def jobRun_update_Some)

text \<open>
  Claim C7, amended. For every preprocess outcome that fails the step, the driver sends the
  one preprocess request and returns. When the body has \<open>abort = true\<close> the run is completed
  as \<open>ABORTED\<close> and nothing is enqueued. For the other failing outcomes the run is set to
  \<open>STARTED\<close>, is not completed, and exactly one \<open>EXECUTE_JOB\<close> execution is enqueued.
\<close>

theorem preprocess_failure_path:
  assumes "jobRuns (db w) (fr_id run) = Some r" and "preprocessFails env"
  shows "\<exists>w' r'. executePreprocessing env run w = (None, w')
           \<and> requests w' = requests w @ [PreprocessRunRequest (fr_id run)]
           \<and> jobRuns (db w') (fr_id run) = Some r'
           \<and> (if preprocessAborts env
               then queue (db w') = queue (db w)
                    \<and> run_status r' = ABORTED \<and> run_completedAt r' = Some (now env)
               else queue (db w') = queue (db w)
                       @ [PerformRunExecution (fr_id run) EXECUTE_JOB
                            (environmentType (fr_run run) = DEVELOPMENT)]
                    \<and> run_status r' = STARTED \<and> run_completedAt r' = run_completedAt r)"
  using assms
  by (auto simp: executePreprocessing_def Let_def preprocess_fail_step preprocessFails_def
        preprocessAborts_def enqueueRunExecutionV3_def enqueue_def
        split: option.splits Parsed.splits)

theorem preprocess_failure_path_witness:
  "jobRuns (db exWorld) (fr_id exFoundRun) = Some exRun
   \<and> preprocessFails (preprocessEnv None) \<and> \<not> preprocessAborts (preprocessEnv None)
   \<and> (\<exists>w' r'. executePreprocessing (preprocessEnv None) exFoundRun exWorld = (None, w')
          \<and> requests w' = [PreprocessRunRequest ''r1'']
          \<and> jobRuns (db w') ''r1'' = Some r'
          \<and> queue (db w') = [PerformRunExecution ''r1'' EXECUTE_JOB False]
          \<and> run_status r' = STARTED)
   \<and> preprocessFails (preprocessEnv (Some abortReply)) \<and> preprocessAborts (preprocessEnv (Some abortReply))
   \<and> (\<exists>w' r'. executePreprocessing (preprocessEnv (Some abortReply)) exFoundRun exWorld = (None, w')
          \<and> requests w' = [PreprocessRunRequest ''r1'']
          \<and> jobRuns (db w') ''r1'' = Some r'
          \<and> queue (db w') = []
          \<and> run_status r' = ABORTED \<and> run_completedAt r' = Some 1000)"
proof -
  have a: "jobRuns (db exWorld) (fr_id exFoundRun) = Some exRun"
    by (simp add: exWorld_def exStore_def exFoundRun_def)
  have b: "preprocessFails (preprocessEnv None)" "\<not> preprocessAborts (preprocessEnv None)"
    "preprocessFails (preprocessEnv (Some abortReply))"
    "preprocessAborts (preprocessEnv (Some abortReply))"
    by (simp_all add: preprocessFails_def preprocessAborts_def preprocessEnv_def abortReply_def
          ok_def)
  have c: "fr_id exFoundRun = ''r1''" "requests exWorld = []" "queue (db exWorld) = []"
    "environmentType (fr_run exFoundRun) \<noteq> DEVELOPMENT" "now (preprocessEnv (Some abortReply)) = 1000"
    by (simp_all add: exFoundRun_def exWorld_def exStore_def exRun_def preprocessEnv_def exEnv_def)
  from preprocess_failure_path [OF a b(1)] b(2) c
  have 1: "\<exists>w' r'. executePreprocessing (preprocessEnv None) exFoundRun exWorld = (None, w')
          \<and> requests w' = [PreprocessRunRequest ''r1'']
          \<and> jobRuns (db w') ''r1'' = Some r'
          \<and> queue (db w') = [PerformRunExecution ''r1'' EXECUTE_JOB False]
          \<and> run_status r' = STARTED"
    by auto
  from preprocess_failure_path [OF a b(3)] b(4) c
  have 2: "\<exists>w' r'. executePreprocessing (preprocessEnv (Some abortReply)) exFoundRun exWorld = (None, w')
          \<and> requests w' = [PreprocessRunRequest ''r1'']
          \<and> jobRuns (db w') ''r1'' = Some r'
          \<and> queue (db w') = []
          \<and> run_status r' = ABORTED \<and> run_completedAt r' = Some 1000"
    by auto
  from a b 1 2 show ?thesis by blast
qed

section \<open>Clearing of the force-yield flag\<close>

text \<open>
  Claim C8, as stated, fails at the handler it names: with the flag set, a delivery answered
  with \<open>RESUME_WITH_TASK\<close> commits (the task is enqueued for resumption) and the flag is still
  set.
\<close>

theorem resume_with_task_keeps_forceYield:
  "fst resumedWithTask = None
   \<and> map_option forceYieldImmediately (jobRuns (db forcedWorld) ''r1'') = Some True
   \<and> map_option forceYieldImmediately (jobRuns (db (snd resumedWithTask)) ''r1'') = Some True
   \<and> queue (db (snd resumedWithTask)) = [ResumeTask ''t1'' None]"
  by (simp add: resumedWithTask_def forcedWorld_def forcedStore_def exec_defs handler_defs ex_defs)

lemma flagCleared_runsUpdated:
  "runsUpdated (fr_id run) f s s' \<Longrightarrow> (\<And>r. \<not> forceYieldImmediately (f r)) \<Longrightarrow> flagCleared run s'"
  by (auto simp: runsUpdated_def flagCleared_def)

lemma flagCleared_steps: "flagCleared run s \<Longrightarrow> steps s s' \<Longrightarrow> flagCleared run s'"
  by (auto simp: flagCleared_def steps_def rowStep_def)

lemma flagCleared_parallel:
  assumes "jobRuns s (fr_id run) = Some r"
  shows "flagCleared run (snd (resumeParallelRunWithTask k run task cs d t s))"
proof -
  let ?s1 = "s\<lparr>jobRuns := (jobRuns s)(fr_id run \<mapsto>
               r\<lparr>executionDuration := executionDuration r + d,
                 executionCount := executionCount r + 1,
                 forceYieldImmediately := False\<rparr>)\<rparr>"
  have 1: "flagCleared run ?s1" by (simp add: flagCleared_def)
  show ?thesis
  proof (cases "if st_outputProperties task \<noteq> None
                 then task_update (st_id task)
                        (\<lambda>x. x\<lparr>outputProperties := st_outputProperties task\<rparr>) ?s1
                 else Inr ?s1")
    case (Inl e)
    with assms 1 show ?thesis
      by (simp add: resumeParallelRunWithTask_def jobRun_update_Some)
  next
    case (Inr s2)
    have "ensures (if st_outputProperties task \<noteq> None
                 then task_update (st_id task)
                        (\<lambda>x. x\<lparr>outputProperties := st_outputProperties task\<rparr>) ?s1
                 else Inr ?s1) (steps ?s1)"
      by (simp add: steps_task_update)
    with Inr have "steps ?s1 s2" by simp
    then have "steps ?s1 (snd (dispatchChildErrors k run d t cs s2))"
      by (rule steps_trans) (rule steps_dispatchChildErrors)
    with 1 have "flagCleared run (snd (dispatchChildErrors k run d t cs s2))"
      by (rule flagCleared_steps)
    with assms Inr show ?thesis
      by (simp add: resumeParallelRunWithTask_def jobRun_update_Some)
  qed
qed

text \<open>
  Claim C8, amended. The transaction that records a \<open>YIELD_EXECUTION\<close>, an
  \<open>AUTO_YIELD_EXECUTION\<close>, an \<open>AUTO_YIELD_EXECUTION_WITH_COMPLETED_TASK\<close> or a timeout
  stores the flag as \<open>false\<close>, and so does \<open>resumeParallelRunWithTask\<close> whenever the run row
  exists, whatever its children do. The handler of \<open>RESUME_WITH_TASK\<close> leaves the flag as
  it was.
\<close>

theorem forceYield_cleared:
  "(resumeYieldedRun k run key d c t s = Inr s' \<longrightarrow> flagCleared run s')
   \<and> (resumeAutoYieldedRun run meta d c s = Inr s' \<longrightarrow> flagCleared run s')
   \<and> (resumeAutoYieldedRunWithCompletedTask run ct d c s = Inr s' \<longrightarrow> flagCleared run s')
   \<and> (resumeRunExecutionAfterTimeout k run d t s = Inr s' \<longrightarrow> flagCleared run s')
   \<and> (jobRuns s (fr_id run) \<noteq> None \<longrightarrow>
        flagCleared run (snd (resumeParallelRunWithTask k run task cs d t s)))
   \<and> (resumeRunWithTask run task d c s = Inr s' \<longrightarrow>
        map_option forceYieldImmediately (jobRuns s' (fr_id run))
          = map_option forceYieldImmediately (jobRuns s (fr_id run)))"
proof (intro conjI impI)
  assume "resumeYieldedRun k run key d c t s = Inr s'"
  from ensuresD [OF resumeYieldedRun_runs this] show "flagCleared run s'"
    by (rule flagCleared_runsUpdated) (simp add: failedRow_def)
next
  assume "resumeAutoYieldedRun run meta d c s = Inr s'"
  from ensuresD [OF resumeAutoYieldedRun_runs this] show "flagCleared run s'"
    by (rule flagCleared_runsUpdated) simp
next
  assume "resumeAutoYieldedRunWithCompletedTask run ct d c s = Inr s'"
  from ensuresD [OF resumeAutoYieldedRunWithCompletedTask_runs this] show "flagCleared run s'"
    by (rule flagCleared_runsUpdated) simp
next
  assume "resumeRunExecutionAfterTimeout k run d t s = Inr s'"
  from ensuresD [OF resumeRunExecutionAfterTimeout_runs this] show "flagCleared run s'"
    by (auto elim!: flagCleared_runsUpdated)
next
  assume "jobRuns s (fr_id run) \<noteq> None"
  then show "flagCleared run (snd (resumeParallelRunWithTask k run task cs d t s))"
    by (auto intro: flagCleared_parallel)
next
  assume "resumeRunWithTask run task d c s = Inr s'"
  from ensuresD [OF resumeRunWithTask_runs this]
  show "map_option forceYieldImmediately (jobRuns s' (fr_id run))
          = map_option forceYieldImmediately (jobRuns s (fr_id run))"
    by (auto simp: runsUpdated_def)
qed

lemma forcedStore_run:
  "jobRuns forcedStore ''r1'' = Some (exRun\<lparr>forceYieldImmediately := True\<rparr>)"
  by (simp add: forcedStore_def)

theorem forceYield_cleared_witness:
  "map_option forceYieldImmediately (jobRuns forcedStore (fr_id exFoundRun)) = Some True
   \<and> (\<exists>s'. resumeYieldedRun exConsts exFoundRun ''k1'' 200 1 1000 forcedStore = Inr s'
          \<and> flagCleared exFoundRun s')
   \<and> (\<exists>s'. resumeAutoYieldedRun exFoundRun exAutoYield 200 1 forcedStore = Inr s'
          \<and> flagCleared exFoundRun s')
   \<and> (\<exists>s'. resumeAutoYieldedRunWithCompletedTask exFoundRun exCompletedTask 200 1 forcedStore = Inr s'
          \<and> flagCleared exFoundRun s')
   \<and> (\<exists>s'. resumeRunExecutionAfterTimeout exConsts exFoundRun 9000 1000 forcedStore = Inr s'
          \<and> flagCleared exFoundRun s')
   \<and> jobRuns forcedStore (fr_id exFoundRun) \<noteq> None
   \<and> flagCleared exFoundRun
        (snd (resumeParallelRunWithTask exConsts exFoundRun exServerTask
                [ChildYieldExecution ''k1''] 200 1000 forcedStore))
   \<and> (\<exists>s'. resumeRunWithTask exFoundRun exServerTask 200 1 forcedStore = Inr s'
          \<and> map_option forceYieldImmediately (jobRuns s' (fr_id exFoundRun)) = Some True)"
proof -
  note r = forcedStore_run
  have 0: "map_option forceYieldImmediately (jobRuns forcedStore (fr_id exFoundRun)) = Some True"
    "jobRuns forcedStore (fr_id exFoundRun) \<noteq> None"
    by (simp_all add: r exFoundRun_def)
  obtain s1 where 1: "resumeYieldedRun exConsts exFoundRun ''k1'' 200 1 1000 forcedStore = Inr s1"
    by (simp add: resumeYieldedRun_def jobRun_update_Some [OF r] exFoundRun_def exRun_def exConsts_def)
  obtain s2 where 2: "resumeAutoYieldedRun exFoundRun exAutoYield 200 1 forcedStore = Inr s2"
    by (simp add: resumeAutoYieldedRun_def jobRun_update_Some [OF r] exFoundRun_def)
  obtain s3 where 3: "resumeAutoYieldedRunWithCompletedTask exFoundRun exCompletedTask 200 1 forcedStore = Inr s3"
    by (simp add: resumeAutoYieldedRunWithCompletedTask_def jobRun_update_Some [OF r] Let_def
          exCompletedTask_def exFoundRun_def)
  obtain s4 where 4: "resumeRunExecutionAfterTimeout exConsts exFoundRun 9000 1000 forcedStore = Inr s4"
    by (simp add: resumeRunExecutionAfterTimeout_def Let_def jobRun_update_def endpoint_update_def
          forcedStore_def exFoundRun_def exRun_def exStore_def exTask_def)
  obtain s5 where 5: "resumeRunWithTask exFoundRun exServerTask 200 1 forcedStore = Inr s5"
    by (simp add: resumeRunWithTask_def jobRun_update_Some [OF r] exServerTask_def truthy_def
          exFoundRun_def)
  note t = forceYield_cleared [where k = exConsts and run = exFoundRun and s = forcedStore
             and t = 1000 and c = 1 and task = exServerTask]
  from t [where key = "''k1''" and d = 200 and s' = s1] 1 have c1: "flagCleared exFoundRun s1"
    by blast
  from t [where meta = exAutoYield and d = 200 and s' = s2] 2 have c2: "flagCleared exFoundRun s2"
    by blast
  from t [where ct = exCompletedTask and d = 200 and s' = s3] 3 have c3: "flagCleared exFoundRun s3"
    by blast
  from t [where d = 9000 and s' = s4] 4 have c4: "flagCleared exFoundRun s4"
    by blast
  from t [where d = 200 and cs = "[ChildYieldExecution ''k1'']"] 0
  have c5: "flagCleared exFoundRun
        (snd (resumeParallelRunWithTask exConsts exFoundRun exServerTask
                [ChildYieldExecution ''k1''] 200 1000 forcedStore))"
    by blast
  from t [where d = 200 and s' = s5] 5 0
  have c6: "map_option forceYieldImmediately (jobRuns s5 (fr_id exFoundRun)) = Some True"
    by metis
  from 0 1 2 3 4 5 c1 c2 c3 c4 c5 c6 show ?thesis by blast
qed

section \<open>The ceiling of yielded executions\<close>

text \<open>
  Claim C3 at a response the ceiling misses. With a maximum of three and two keys stored,
  a \<open>RESUME_WITH_PARALLEL_TASK\<close> response whose children are two \<open>YIELD_EXECUTION\<close>s passes
  the check of \<open>resumeYieldedRun\<close> twice, because both children are checked against the
  list loaded at the start of the chunk: four keys are stored and the run is not failed.
\<close>

theorem parallel_yields_exceed_ceiling:
  "MAX_RUN_YIELDED_EXECUTIONS exConsts = 3
   \<and> map_option yieldedExecutions (jobRuns (db nearCeilingWorld) ''r1'') = Some [''k1'', ''k2'']
   \<and> fst twoYields = None
   \<and> map_option yieldedExecutions (jobRuns (db (snd twoYields)) ''r1'')
       = Some [''k1'', ''k2'', ''k3'', ''k4'']
   \<and> map_option run_status (jobRuns (db (snd twoYields)) ''r1'') = Some STARTED"
  by (simp add: twoYields_def nearCeilingWorld_def exec_defs handler_defs ex_defs
        dispatchChildError_def)

section \<open>Children of a parallel task\<close>

text \<open>
  Claim C6 at a response where the code misses it. A child with status \<open>ERROR\<close> is handed to
  \<open>failRunExecution\<close> with the duration of the chunk, not with zero: after a chunk of 100 ms
  whose only child is an \<open>ERROR\<close>, the run that had a duration of 0 has one of 200, so the
  parent update is not the only one that accounts for the duration. The sibling paths
  account for it once: the same chunk with a \<open>RESUME_WITH_TASK\<close> child, which is passed zero,
  and the same chunk answered with \<open>ERROR\<close> at the top level both end with 100.
\<close>

theorem error_child_counts_duration_twice:
  "durations (db parallelWorld) ''r1'' = Some 0
   \<and> fst (parallelDelivery [ChildError None (Some ''boom'')]) = None
   \<and> durations (db (snd (parallelDelivery [ChildError None (Some ''boom'')]))) ''r1'' = Some 200
   \<and> map_option run_status
         (jobRuns (db (snd (parallelDelivery [ChildError None (Some ''boom'')]))) ''r1'')
       = Some FAILURE
   \<and> fst (parallelDelivery [ChildResumeWithTask exServerTask]) = None
   \<and> durations (db (snd (parallelDelivery [ChildResumeWithTask exServerTask]))) ''r1'' = Some 100
   \<and> fst errorDelivery = None
   \<and> durations (db (snd errorDelivery)) ''r1'' = Some 100
   \<and> map_option run_status (jobRuns (db (snd errorDelivery)) ''r1'') = Some FAILURE"
  by (simp add: parallelDelivery_def errorDelivery_def parallelWorld_def durations_def exec_defs
        handler_defs ex_defs dispatchChildError_def)

lemma kept_runsUpdated:
  assumes "runsUpdated rid f s s'"
  shows "(\<And>r. executionCount (f r) = executionCount r) \<Longrightarrow> counts s' = counts s"
    and "(\<And>r. executionDuration (f r) = executionDuration r) \<Longrightarrow> durations s' = durations s"
  using assms by (auto simp: runsUpdated_def counts_def durations_def fun_eq_iff)

lemma kept_transaction:
  assumes "ensures (f s) (\<lambda>s'. P s' = P s)"
  shows "P (snd (transaction f s)) = P s"
  using assms by (cases "f s") (simp_all add: transaction_def)

lemma counts_failRunExecution:
  "ensures (failRunExecution EXECUTE_JOB run out st d t s) (\<lambda>s'. counts s' = counts s)"
  by (rule ensures_mono [OF failRunExecution_runs])
     (erule kept_runsUpdated, simp add: failedRow_def)

lemma durations_failRunExecution_0:
  "ensures (failRunExecution EXECUTE_JOB run out st 0 t s) (\<lambda>s'. durations s' = durations s)"
  by (rule ensures_mono [OF failRunExecution_runs])
     (erule kept_runsUpdated, simp add: failedRow_def)

lemma counts_child_handlers:
  "ensures (resumeRunWithTask run task d 0 s) (\<lambda>s'. counts s' = counts s)"
  "ensures (resumeYieldedRun k run key d 0 t s) (\<lambda>s'. counts s' = counts s)"
  "ensures (resumeAutoYieldedRun run meta d 0 s) (\<lambda>s'. counts s' = counts s)"
  "ensures (resumeAutoYieldedRunWithCompletedTask run ct d 0 s) (\<lambda>s'. counts s' = counts s)"
  "ensures (retryRunWithTask run task err retryAt d 0 s) (\<lambda>s'. counts s' = counts s)"
      apply (rule ensures_mono [OF resumeRunWithTask_runs], erule kept_runsUpdated, simp)
     apply (rule ensures_mono [OF resumeYieldedRun_runs], erule kept_runsUpdated,
            simp add: failedRow_def)
    apply (rule ensures_mono [OF resumeAutoYieldedRun_runs], erule kept_runsUpdated, simp)
   apply (rule ensures_mono [OF resumeAutoYieldedRunWithCompletedTask_runs],
          erule kept_runsUpdated, simp)
  apply (rule ensures_mono [OF retryRunWithTask_runs], elim exE conjE,
         erule kept_runsUpdated, simp)
  done

lemma durations_child_handlers:
  "ensures (resumeRunWithTask run task 0 c s) (\<lambda>s'. durations s' = durations s)"
  "ensures (resumeYieldedRun k run key 0 c t s) (\<lambda>s'. durations s' = durations s)"
  "ensures (resumeAutoYieldedRun run meta 0 c s) (\<lambda>s'. durations s' = durations s)"
  "ensures (resumeAutoYieldedRunWithCompletedTask run ct 0 c s) (\<lambda>s'. durations s' = durations s)"
  "ensures (retryRunWithTask run task err retryAt 0 c s) (\<lambda>s'. durations s' = durations s)"
      apply (rule ensures_mono [OF resumeRunWithTask_runs], erule kept_runsUpdated, simp)
     apply (rule ensures_mono [OF resumeYieldedRun_runs], erule kept_runsUpdated,
            simp add: failedRow_def)
    apply (rule ensures_mono [OF resumeAutoYieldedRun_runs], erule kept_runsUpdated, simp)
   apply (rule ensures_mono [OF resumeAutoYieldedRunWithCompletedTask_runs],
          erule kept_runsUpdated, simp)
  apply (rule ensures_mono [OF retryRunWithTask_runs], elim exE conjE,
         erule kept_runsUpdated, simp)
  done

lemma counts_dispatchChildError:
  "counts (snd (snd (dispatchChildError k run d t c s))) = counts s"
  by (cases c)
     (simp_all add: dispatchChildError_def kept_transaction counts_child_handlers
        counts_failRunExecution)

lemma durations_dispatchChildError:
  "\<not> terminalChild c \<Longrightarrow> durations (snd (snd (dispatchChildError k run d t c s))) = durations s"
  by (cases c)
     (simp_all add: dispatchChildError_def kept_transaction durations_child_handlers)

lemma flow_dispatchChildError:
  "fst (dispatchChildError k run d t c s) = (if terminalChild c then Return else Continue)"
  by (cases c) (simp_all add: dispatchChildError_def)

lemma dispatchChildErrors_Cons:
  "dispatchChildErrors k run d t (c # cs) s =
     (if terminalChild c \<or> fst (snd (dispatchChildError k run d t c s)) \<noteq> None
      then snd (dispatchChildError k run d t c s)
      else dispatchChildErrors k run d t cs (snd (snd (dispatchChildError k run d t c s))))"
  using flow_dispatchChildError [of k run d t c s]
  by (cases "dispatchChildError k run d t c s") (auto split: Flow.splits option.splits)

lemma counts_dispatchChildErrors:
  "counts (snd (dispatchChildErrors k run d t cs s)) = counts s"
proof (induction cs arbitrary: s)
  case Nil
  show ?case by simp
next
  case (Cons c cs)
  show ?case
    by (simp add: dispatchChildErrors_Cons Cons.IH counts_dispatchChildError
          del: dispatchChildErrors.simps)
qed

lemma durations_dispatchChildErrors:
  "list_all (\<lambda>c. \<not> terminalChild c) cs \<Longrightarrow>
   durations (snd (dispatchChildErrors k run d t cs s)) = durations s"
proof (induction cs arbitrary: s)
  case Nil
  show ?case by simp
next
  case (Cons c cs)
  then show ?case
    by (simp add: dispatchChildErrors_Cons durations_dispatchChildError del: dispatchChildErrors.simps)
qed

lemma dispatchChildErrors_short_circuit:
  "terminalChild c \<Longrightarrow>
   dispatchChildErrors k run d t (pre @ c # rest) s = dispatchChildErrors k run d t (pre @ [c]) s"
proof (induction pre arbitrary: s)
  case Nil
  then show ?case by (simp add: dispatchChildErrors_Cons del: dispatchChildErrors.simps)
next
  case (Cons a pre)
  then show ?case
    by (simp add: dispatchChildErrors_Cons del: dispatchChildErrors.simps)
qed

lemma resumeParallelRunWithTask_unfold:
  assumes "jobRuns s (fr_id run) = Some r"
  shows "\<exists>s2. (\<forall>cs. resumeParallelRunWithTask k run task cs d t s = dispatchChildErrors k run d t cs s2
                  \<or> (\<exists>e. resumeParallelRunWithTask k run task cs d t s = (Some e, s2)))
           \<and> counts s2 (fr_id run) = Some (executionCount r + 1)
           \<and> durations s2 (fr_id run) = Some (executionDuration r + d)"
proof -
  let ?s1 = "s\<lparr>jobRuns := (jobRuns s)(fr_id run \<mapsto>
               r\<lparr>executionDuration := executionDuration r + d,
                 executionCount := executionCount r + 1,
                 forceYieldImmediately := False\<rparr>)\<rparr>"
  show ?thesis
  proof (cases "if st_outputProperties task \<noteq> None
                 then task_update (st_id task)
                        (\<lambda>x. x\<lparr>outputProperties := st_outputProperties task\<rparr>) ?s1
                 else Inr ?s1")
    case (Inl e)
    with assms show ?thesis
      by (intro exI [of _ ?s1])
         (simp add: resumeParallelRunWithTask_def jobRun_update_Some counts_def durations_def)
  next
    case (Inr s2)
    then have "jobRuns s2 = jobRuns ?s1"
      by (auto simp: task_update_def split: if_splits option.splits)
    with assms Inr show ?thesis
      by (intro exI [of _ s2])
         (simp add: resumeParallelRunWithTask_def jobRun_update_Some counts_def durations_def)
  qed
qed

text \<open>
  What holds of the loop whatever the children are: the parent update is the only change
  of \<open>executionCount\<close>; without a child that fails the run it is also the only change of
  \<open>executionDuration\<close>; and the children after the first one that fails the run have no
  effect.
\<close>

lemma parallel_children_accounting:
  "(jobRuns s (fr_id run) = Some r \<longrightarrow>
      counts (snd (resumeParallelRunWithTask k run task cs d t s)) (fr_id run)
        = Some (executionCount r + 1))
   \<and> (jobRuns s (fr_id run) = Some r \<and> list_all (\<lambda>c. \<not> terminalChild c) cs \<longrightarrow>
      durations (snd (resumeParallelRunWithTask k run task cs d t s)) (fr_id run)
        = Some (executionDuration r + d))
   \<and> (terminalChild c \<longrightarrow>
      resumeParallelRunWithTask k run task (pre @ c # rest) d t s
        = resumeParallelRunWithTask k run task (pre @ [c]) d t s)"
proof (intro conjI impI)
  assume r: "jobRuns s (fr_id run) = Some r"
  from resumeParallelRunWithTask_unfold [OF r, of k task d t]
  obtain s2 where s2: "resumeParallelRunWithTask k run task cs d t s = dispatchChildErrors k run d t cs s2
                  \<or> (\<exists>e. resumeParallelRunWithTask k run task cs d t s = (Some e, s2))"
    and c: "counts s2 (fr_id run) = Some (executionCount r + 1)"
    by blast
  from s2 c show "counts (snd (resumeParallelRunWithTask k run task cs d t s)) (fr_id run)
        = Some (executionCount r + 1)"
    by (auto simp: counts_dispatchChildErrors)
next
  assume "jobRuns s (fr_id run) = Some r \<and> list_all (\<lambda>c. \<not> terminalChild c) cs"
  then have r: "jobRuns s (fr_id run) = Some r" and nt: "list_all (\<lambda>c. \<not> terminalChild c) cs"
    by simp_all
  from resumeParallelRunWithTask_unfold [OF r, of k task d t]
  obtain s2 where s2: "resumeParallelRunWithTask k run task cs d t s = dispatchChildErrors k run d t cs s2
                  \<or> (\<exists>e. resumeParallelRunWithTask k run task cs d t s = (Some e, s2))"
    and c: "durations s2 (fr_id run) = Some (executionDuration r + d)"
    by blast
  from s2 c nt show "durations (snd (resumeParallelRunWithTask k run task cs d t s)) (fr_id run)
        = Some (executionDuration r + d)"
    by (auto simp: durations_dispatchChildErrors)
next
  assume tc: "terminalChild c"
  show "resumeParallelRunWithTask k run task (pre @ c # rest) d t s
        = resumeParallelRunWithTask k run task (pre @ [c]) d t s"
    by (simp add: resumeParallelRunWithTask_def
          dispatchChildErrors_short_circuit [OF tc, where pre = pre and rest = rest]
          split: sum.splits)
qed

section \<open>Retrying a task\<close>

lemma foldl_greatest:
  "foldl (\<lambda>best y. if f best < f y then y else best) x xs \<in> set (x # xs)
   \<and> (\<forall>y\<in>set (x # xs). (f y :: nat) \<le> f (foldl (\<lambda>best y. if f best < f y then y else best) x xs))"
proof (induction xs arbitrary: x)
  case Nil
  show ?case by simp
next
  case (Cons a xs)
  show ?case
  proof (cases "f x < f a")
    case True
    with Cons.IH [of a] show ?thesis by (auto intro: less_imp_le order_trans)
  next
    case False
    with Cons.IH [of x] show ?thesis by (auto intro: order_trans)
  qed
qed

lemma set_pendingAttempts:
  "(i, a) \<in> set (pendingAttempts tid as) \<longleftrightarrow> i < length as \<and> a = as ! i \<and> isPending tid a"
  by (auto simp: pendingAttempts_def isPending_def in_set_enumerate_eq)

lemma greatestNumber_None:
  "greatestNumber (pendingAttempts tid as) = None \<longleftrightarrow> (\<forall>a\<in>set as. \<not> isPending tid a)"
proof
  assume "greatestNumber (pendingAttempts tid as) = None"
  then have e: "pendingAttempts tid as = []"
    by (simp add: greatestNumber_def split: list.splits)
  show "\<forall>a\<in>set as. \<not> isPending tid a"
  proof
    fix a assume "a \<in> set as"
    then obtain i where "i < length as" "a = as ! i" by (auto simp: in_set_conv_nth)
    then have "isPending tid a \<Longrightarrow> (i, a) \<in> set (pendingAttempts tid as)"
      by (simp add: set_pendingAttempts)
    with e show "\<not> isPending tid a" by auto
  qed
next
  assume n: "\<forall>a\<in>set as. \<not> isPending tid a"
  have "pendingAttempts tid as = []"
  proof (rule ccontr)
    assume "pendingAttempts tid as \<noteq> []"
    then obtain i a where "(i, a) \<in> set (pendingAttempts tid as)"
      by (cases "pendingAttempts tid as") auto
    with n show False by (auto simp: set_pendingAttempts)
  qed
  then show "greatestNumber (pendingAttempts tid as) = None"
    by (simp add: greatestNumber_def)
qed

lemma greatestNumber_Some:
  assumes "greatestNumber (pendingAttempts tid as) = Some (i, a)"
  shows "isLatestPending tid as i \<and> a = as ! i"
proof -
  from assms obtain x rest where p: "pendingAttempts tid as = x # rest"
    and g: "foldl (\<lambda>best y. if attempt_number (snd best) < attempt_number (snd y)
                                 then y else best) x rest = (i, a)"
    by (auto simp: greatestNumber_def split: list.splits)
  have fg: "foldl (\<lambda>best y. if attempt_number (snd best) < attempt_number (snd y)
                                 then y else best) x rest \<in> set (x # rest)
    \<and> (\<forall>y\<in>set (x # rest). attempt_number (snd y) \<le> attempt_number (snd (
         foldl (\<lambda>best y. if attempt_number (snd best) < attempt_number (snd y)
                                 then y else best) x rest)))"
    by (rule foldl_greatest [of "\<lambda>p. attempt_number (snd p)"])
  then have m: "(i, a) \<in> set (pendingAttempts tid as)"
    and mx: "\<forall>y\<in>set (pendingAttempts tid as). attempt_number (snd y) \<le> attempt_number a"
    unfolding g p by simp_all
  from m have 1: "i < length as" "a = as ! i" "isPending tid a"
    by (auto simp: set_pendingAttempts)
  have "attempt_number b \<le> attempt_number a" if "b \<in> set as" "isPending tid b" for b
  proof -
    from that obtain j where "j < length as" "b = as ! j" by (auto simp: in_set_conv_nth)
    with that have "(j, b) \<in> set (pendingAttempts tid as)" by (simp add: set_pendingAttempts)
    with mx show ?thesis by auto
  qed
  with 1 show ?thesis by (auto simp: isLatestPending_def)
qed

lemma map_filter_update:
  assumes "P x' = P (xs ! i)" "f x' = f (xs ! i)"
  shows "map f (filter P (xs[i := x'])) = map f (filter P xs)"
  using assms
proof (induction xs arbitrary: i)
  case Nil
  show ?case by simp
next
  case (Cons y ys)
  then show ?case by (cases i) auto
qed

lemma upt_numbers_last:
  assumes "map g xs = [1..<Suc (length xs)]" "xs \<noteq> []"
  shows "g (last xs) = length xs"
proof -
  from assms have "last (map g xs) = last [1..<Suc (length xs)]" by simp
  with assms(2) show ?thesis by (simp add: last_map last_upt del: upt_Suc)
qed

lemma upt_numbers_bound:
  assumes "map g xs = [1..<Suc (length xs)]" "x \<in> set xs"
  shows "g x \<le> length xs"
proof -
  from assms(2) have "g x \<in> set (map g xs)" by simp
  with assms(1) show ?thesis by (auto simp del: upt_Suc)
qed

lemma retryRunWithTask_eq:
  assumes "task_findUnique (st_id task) s = Some row" and "jobRuns s (task_runId row) = Some r"
  shows "retryRunWithTask run task err retryAt d c s = Inr
     (s\<lparr>taskAttempts := retriedAttempts (st_id task) err retryAt (taskAttempts s),
        tasks := map (\<lambda>x. if task_id x = st_id task then x\<lparr>task_status := TASK_WAITING\<rparr> else x)
                   (tasks s),
        jobRuns := (jobRuns s)(task_runId row \<mapsto>
                     r\<lparr>executionDuration := executionDuration r + d,
                       executionCount := executionCount r + c\<rparr>),
        queue := queue s @ [ResumeTask (st_id task) (Some retryAt)]\<rparr>)"
proof (cases "greatestNumber (pendingAttempts (st_id task) (taskAttempts s))")
  case None
  with assms show ?thesis
    by (simp add: retryRunWithTask_def Let_def task_findUnique_def task_update_def
          jobRun_update_def enqueue_def retriedAttempts_def newAttempt_def)
next
  case (Some p)
  obtain i a where p: "p = (i, a)" by (cases p)
  with Some assms show ?thesis
    by (simp add: retryRunWithTask_def Let_def task_findUnique_def task_update_def
          jobRun_update_def enqueue_def retriedAttempts_def newAttempt_def errored_def)
qed

lemma wellNumbered_retriedAttempts:
  assumes w: "wellNumbered tid s"
    and s': "taskAttempts s' = retriedAttempts tid err retryAt (taskAttempts s)"
  shows "wellNumbered tid s' \<and> length (attemptsOf tid s') = Suc (length (attemptsOf tid s))"
proof (cases "greatestNumber (pendingAttempts tid (taskAttempts s))")
  case None
  then have np: "\<forall>a\<in>set (taskAttempts s). \<not> isPending tid a"
    by (simp add: greatestNumber_None)
  have e: "attemptsOf tid s = []"
  proof (rule ccontr)
    assume ne: "attemptsOf tid s \<noteq> []"
    with w have "attempt_status (last (attemptsOf tid s)) = ATTEMPT_PENDING"
      by (simp add: wellNumbered_def)
    moreover from ne have "last (attemptsOf tid s) \<in> set (attemptsOf tid s)" by simp
    ultimately have "\<exists>a\<in>set (taskAttempts s). isPending tid a"
      by (auto simp: attemptsOf_def isPending_def)
    with np show False by blast
  qed
  from None s' e show ?thesis
    by (simp add: wellNumbered_def attemptsOf_def retriedAttempts_def newAttempt_def)
next
  case (Some p)
  obtain i a where p: "p = (i, a)" by (cases p)
  let ?as = "taskAttempts s"
  let ?of = "attemptsOf tid s"
  let ?P = "\<lambda>a. attempt_taskId a = tid"
  from Some p have lp: "isLatestPending tid ?as i" and a: "a = ?as ! i"
    using greatestNumber_Some by blast+
  from lp a have i: "i < length ?as" and pa: "isPending tid a"
    and mx: "\<And>b. b \<in> set ?as \<Longrightarrow> isPending tid b \<Longrightarrow> attempt_number b \<le> attempt_number a"
    by (auto simp: isLatestPending_def)
  from i a pa have ain: "a \<in> set ?of"
    by (auto simp: attemptsOf_def isPending_def)
  then have ne: "?of \<noteq> []" by auto
  from w have nums: "map attempt_number ?of = [1..<Suc (length ?of)]"
    and lastp: "attempt_status (last ?of) = ATTEMPT_PENDING"
    using ne by (simp_all add: wellNumbered_def)
  from ne have lin: "last ?of \<in> set ?of" by simp
  then have "last ?of \<in> set ?as" "isPending tid (last ?of)"
    using lastp by (auto simp: attemptsOf_def isPending_def)
  then have "attempt_number (last ?of) \<le> attempt_number a" by (rule mx)
  moreover have "attempt_number (last ?of) = length ?of"
    by (rule upt_numbers_last [OF nums ne])
  moreover have "attempt_number a \<le> length ?of"
    by (rule upt_numbers_bound [OF nums ain])
  ultimately have na: "attempt_number a = length ?of" by simp
  have same: "map attempt_number (filter ?P (?as[i := errored err a])) = map attempt_number ?of"
    unfolding attemptsOf_def
    by (rule map_filter_update) (simp_all add: errored_def a)
  then have len: "length (filter ?P (?as[i := errored err a])) = length ?of"
    by (metis length_map)
  from Some p s' have "attemptsOf tid s'
      = filter ?P (?as[i := errored err a]) @ [newAttempt tid (attempt_number a + 1) retryAt]"
    by (simp add: attemptsOf_def retriedAttempts_def newAttempt_def)
  with same len na nums show ?thesis
    by (simp add: wellNumbered_def newAttempt_def)
qed

text \<open>
  Claim C5. When the task of a \<open>RETRY_WITH_TASK\<close> response exists and its run exists, the
  transaction commits and: if the task has pending attempts, one with the greatest number
  among them is marked \<open>ERRORED\<close> with the formatted error and a new \<open>PENDING\<close> attempt is
  created with that number plus one; if it has none, the new attempt has number 1; the new
  attempt runs at \<open>retryAt\<close>; the task is \<open>WAITING\<close>; the run of the task has its duration and
  count incremented by the amounts given; a \<open>ResumeTask\<close> job for \<open>retryAt\<close> is enqueued. If
  the attempts of the task were numbered 1..N with the last one pending, they are numbered
  1..N+1 with the last one pending afterwards.
\<close>

theorem retry_with_task:
  assumes "task_findUnique (st_id task) s = Some row" and "jobRuns s (task_runId row) = Some r"
  shows "\<exists>s'. retryRunWithTask run task err retryAt d c s = Inr s'
     \<and> ((\<forall>a\<in>set (taskAttempts s). \<not> isPending (st_id task) a) \<longrightarrow>
          taskAttempts s' = taskAttempts s @ [newAttempt (st_id task) 1 retryAt])
     \<and> ((\<exists>a\<in>set (taskAttempts s). isPending (st_id task) a) \<longrightarrow>
          (\<exists>i. isLatestPending (st_id task) (taskAttempts s) i
             \<and> taskAttempts s' = (taskAttempts s)[i := errored err (taskAttempts s ! i)]
                 @ [newAttempt (st_id task) (attempt_number (taskAttempts s ! i) + 1) retryAt]))
     \<and> tasks s' = map (\<lambda>x. if task_id x = st_id task then x\<lparr>task_status := TASK_WAITING\<rparr> else x)
                     (tasks s)
     \<and> jobRuns s' = (jobRuns s)(task_runId row \<mapsto>
                       r\<lparr>executionDuration := executionDuration r + d,
                         executionCount := executionCount r + c\<rparr>)
     \<and> queue s' = queue s @ [ResumeTask (st_id task) (Some retryAt)]
     \<and> (wellNumbered (st_id task) s \<longrightarrow>
          wellNumbered (st_id task) s'
          \<and> length (attemptsOf (st_id task) s') = Suc (length (attemptsOf (st_id task) s)))"
proof -
  let ?tid = "st_id task"
  let ?s' = "s\<lparr>taskAttempts := retriedAttempts ?tid err retryAt (taskAttempts s),
        tasks := map (\<lambda>x. if task_id x = ?tid then x\<lparr>task_status := TASK_WAITING\<rparr> else x)
                   (tasks s),
        jobRuns := (jobRuns s)(task_runId row \<mapsto>
                     r\<lparr>executionDuration := executionDuration r + d,
                       executionCount := executionCount r + c\<rparr>),
        queue := queue s @ [ResumeTask ?tid (Some retryAt)]\<rparr>"
  have eq: "retryRunWithTask run task err retryAt d c s = Inr ?s'"
    by (rule retryRunWithTask_eq [OF assms])
  have ta: "taskAttempts ?s' = retriedAttempts ?tid err retryAt (taskAttempts s)" by simp
  have 1: "taskAttempts ?s' = taskAttempts s @ [newAttempt ?tid 1 retryAt]"
    if "\<forall>a\<in>set (taskAttempts s). \<not> isPending ?tid a"
    using that greatestNumber_None [of ?tid "taskAttempts s"]
    by (simp add: retriedAttempts_def)
  have 2: "\<exists>i. isLatestPending ?tid (taskAttempts s) i
             \<and> taskAttempts ?s' = (taskAttempts s)[i := errored err (taskAttempts s ! i)]
                 @ [newAttempt ?tid (attempt_number (taskAttempts s ! i) + 1) retryAt]"
    if "\<exists>a\<in>set (taskAttempts s). isPending ?tid a"
  proof -
    from that greatestNumber_None [of ?tid "taskAttempts s"]
    obtain i a where g: "greatestNumber (pendingAttempts ?tid (taskAttempts s)) = Some (i, a)"
      by (cases "greatestNumber (pendingAttempts ?tid (taskAttempts s))") auto
    from greatestNumber_Some [OF g] g show ?thesis
      by (intro exI [of _ i]) (simp add: retriedAttempts_def)
  qed
  have 3: "wellNumbered ?tid ?s' \<and> length (attemptsOf ?tid ?s') = Suc (length (attemptsOf ?tid s))"
    if "wellNumbered ?tid s"
    by (rule wellNumbered_retriedAttempts [OF that ta])
  from eq 1 2 3 show ?thesis
    by (intro exI [of _ ?s']) simp
qed

text \<open>Scenario S5 (attempt 2 pending, retry at 6000), and a first retry of a task without
  attempts.\<close>

theorem retry_with_task_witness:
  "task_findUnique (st_id exServerTask) (retryStore [firstAttempt, secondAttempt]) = Some exTask
   \<and> jobRuns (retryStore [firstAttempt, secondAttempt]) (task_runId exTask) = Some exRun
   \<and> wellNumbered ''t1'' (retryStore [firstAttempt, secondAttempt])
   \<and> isLatestPending ''t1'' [firstAttempt, secondAttempt] 1
   \<and> (\<exists>s'. retryRunWithTask exFoundRun exServerTask ''boom'' 6000 100 1
               (retryStore [firstAttempt, secondAttempt]) = Inr s'
          \<and> taskAttempts s' = [firstAttempt, errored ''boom'' secondAttempt, newAttempt ''t1'' 3 6000]
          \<and> map task_status (tasks s') = [TASK_WAITING]
          \<and> queue s' = [ResumeTask ''t1'' (Some 6000)]
          \<and> wellNumbered ''t1'' s')
   \<and> wellNumbered ''t1'' (retryStore [])
   \<and> (\<exists>s'. retryRunWithTask exFoundRun exServerTask ''boom'' 6000 100 1 (retryStore []) = Inr s'
          \<and> taskAttempts s' = [newAttempt ''t1'' 1 6000]
          \<and> wellNumbered ''t1'' s')"
proof -
  let ?s = "retryStore [firstAttempt, secondAttempt]"
  have a: "task_findUnique (st_id exServerTask) (retryStore as) = Some exTask"
    "jobRuns (retryStore as) (task_runId exTask) = Some exRun" for as
    by (simp_all add: task_findUnique_def retryStore_def exServerTask_def exTask_def exStore_def)
  have b: "wellNumbered ''t1'' ?s" "wellNumbered ''t1'' (retryStore [])"
    by (simp_all add: wellNumbered_def attemptsOf_def retryStore_def firstAttempt_def
          secondAttempt_def)
  have c: "isLatestPending ''t1'' [firstAttempt, secondAttempt] 1"
    by (simp add: isLatestPending_def isPending_def firstAttempt_def secondAttempt_def)
  have d: "\<exists>a\<in>set (taskAttempts ?s). isPending (st_id exServerTask) a"
    "\<forall>a\<in>set (taskAttempts (retryStore [])). \<not> isPending (st_id exServerTask) a"
    by (simp_all add: retryStore_def isPending_def secondAttempt_def exServerTask_def)
  have only: "i = 1" if "isLatestPending (st_id exServerTask) (taskAttempts ?s) i" for i
    using that
    by (cases i)
       (auto simp: isLatestPending_def isPending_def retryStore_def firstAttempt_def
          exServerTask_def)
  have e: "st_id exServerTask = ''t1''" "queue ?s = []" "queue (retryStore []) = []"
    "taskAttempts ?s = [firstAttempt, secondAttempt]" "taskAttempts (retryStore []) = []"
    by (simp_all add: exServerTask_def retryStore_def exStore_def exTask_def)
  have n: "attempt_number secondAttempt = 2" by (simp add: secondAttempt_def)
  from retry_with_task [OF a, of exFoundRun "''boom''" 6000 100 1 "[firstAttempt, secondAttempt]"]
  obtain s' where s': "retryRunWithTask exFoundRun exServerTask ''boom'' 6000 100 1 ?s = Inr s'"
    and 1: "(\<exists>a\<in>set (taskAttempts ?s). isPending (st_id exServerTask) a) \<longrightarrow>
          (\<exists>i. isLatestPending (st_id exServerTask) (taskAttempts ?s) i
             \<and> taskAttempts s' = (taskAttempts ?s)[i := errored ''boom'' (taskAttempts ?s ! i)]
                 @ [newAttempt (st_id exServerTask) (attempt_number (taskAttempts ?s ! i) + 1) 6000])"
    and 2: "tasks s' = map (\<lambda>x. if task_id x = st_id exServerTask
                                  then x\<lparr>task_status := TASK_WAITING\<rparr> else x) (tasks ?s)"
    and 3: "queue s' = queue ?s @ [ResumeTask (st_id exServerTask) (Some 6000)]"
    and 4: "wellNumbered (st_id exServerTask) ?s \<longrightarrow> wellNumbered (st_id exServerTask) s'"
    by blast
  from 1 d(1) only have "taskAttempts s' = (taskAttempts ?s)[1 := errored ''boom'' (taskAttempts ?s ! 1)]
                 @ [newAttempt (st_id exServerTask) (attempt_number (taskAttempts ?s ! 1) + 1) 6000]"
    by blast
  then have 5: "taskAttempts s' = [firstAttempt, errored ''boom'' secondAttempt, newAttempt ''t1'' 3 6000]"
    by (simp add: e n)
  from 2 have 6: "map task_status (tasks s') = [TASK_WAITING]"
    by (simp add: e(1) retryStore_def exTask_def)
  from 3 have 7: "queue s' = [ResumeTask ''t1'' (Some 6000)]" by (simp add: e)
  from 4 b have 8: "wellNumbered ''t1'' s'" by (simp add: e)
  from retry_with_task [OF a, of exFoundRun "''boom''" 6000 100 1 "[]"]
  obtain s0 where s0: "retryRunWithTask exFoundRun exServerTask ''boom'' 6000 100 1 (retryStore []) = Inr s0"
    and 9: "(\<forall>a\<in>set (taskAttempts (retryStore [])). \<not> isPending (st_id exServerTask) a) \<longrightarrow>
          taskAttempts s0 = taskAttempts (retryStore []) @ [newAttempt (st_id exServerTask) 1 6000]"
    and 10: "wellNumbered (st_id exServerTask) (retryStore []) \<longrightarrow> wellNumbered (st_id exServerTask) s0"
    by blast
  from 9 d(2) have 11: "taskAttempts s0 = [newAttempt ''t1'' 1 6000]" by (simp add: e)
  from 10 b have 12: "wellNumbered ''t1'' s0" by (simp add: e)
  have x: "\<exists>s'. retryRunWithTask exFoundRun exServerTask ''boom'' 6000 100 1 ?s = Inr s'
          \<and> taskAttempts s' = [firstAttempt, errored ''boom'' secondAttempt, newAttempt ''t1'' 3 6000]
          \<and> map task_status (tasks s') = [TASK_WAITING]
          \<and> queue s' = [ResumeTask ''t1'' (Some 6000)]
          \<and> wellNumbered ''t1'' s'"
    by (rule exI [of _ s']) (intro conjI s' 5 6 7 8)
  have y: "\<exists>s'. retryRunWithTask exFoundRun exServerTask ''boom'' 6000 100 1 (retryStore []) = Inr s'
          \<and> taskAttempts s' = [newAttempt ''t1'' 1 6000]
          \<and> wellNumbered ''t1'' s'"
    by (rule exI [of _ s0]) (intro conjI s0 11 12)
  show ?thesis
    by (intro conjI a b c x y)
qed

section \<open>Accounting of executions\<close>


lemma transaction_None:
  "fst (transaction f s) = None \<Longrightarrow> \<exists>s'. f s = Inr s' \<and> snd (transaction f s) = s'"
  by (cases "f s") (simp_all add: transaction_def)










lemma upsertRunSubscriptions_tasks [simp]:
  "tasks (upsertRunSubscriptions run hs s) = tasks s"
  by (simp add: upsertRunSubscriptions_def subscription_upsert_def Let_def split: option.splits)





end
